theory Spec2Isabelle
  imports Complex_Main "HOL-Library.Word"
begin

section \<open>Values: scalars, vectors, matrices\<close>

text \<open>
  The viewer computes with \<^verbatim>\<open>float\<close> (\<^verbatim>\<open>glm::vec3\<close>, \<^verbatim>\<open>glm::vec4\<close>,
  \<^verbatim>\<open>glm::mat4\<close>). Scalars are modelled as exact rationals: rounding, infinities and
  NaN are outside the model. A \<^verbatim>\<open>glm::mat4\<close> is four columns, as glm stores it.
  The glm operations that need a division or a square root (\<^verbatim>\<open>glm::inverse\<close>,
  \<^verbatim>\<open>glm::normalize\<close>) belong to the external library and are parameters of the
  frame environment below.
\<close>

type_synonym scalar = rat
type_synonym vec3 = "scalar \<times> scalar \<times> scalar"
type_synonym vec4 = "scalar \<times> scalar \<times> scalar \<times> scalar"
type_synonym mat4 = "vec4 \<times> vec4 \<times> vec4 \<times> vec4"

definition vec4_scale :: "vec4 \<Rightarrow> scalar \<Rightarrow> vec4" where
  "vec4_scale v k = (case v of (x, y, z, w) \<Rightarrow> (x * k, y * k, z * k, w * k))"

definition vec4_add :: "vec4 \<Rightarrow> vec4 \<Rightarrow> vec4" where
  "vec4_add u v =
     (case u of (a, b, c, d) \<Rightarrow> case v of (x, y, z, w) \<Rightarrow> (a + x, b + y, c + z, d + w))"

text \<open>\<^verbatim>\<open>mat4 * vec4\<close>: the linear combination of the columns.\<close>

definition mat4_mul_vec :: "mat4 \<Rightarrow> vec4 \<Rightarrow> vec4" where
  "mat4_mul_vec m v =
     (case m of (c0, c1, c2, c3) \<Rightarrow> case v of (x, y, z, w) \<Rightarrow>
        vec4_add (vec4_add (vec4_add (vec4_scale c0 x) (vec4_scale c1 y)) (vec4_scale c2 z))
          (vec4_scale c3 w))"

text \<open>\<^verbatim>\<open>mat4 * mat4\<close>: column \<open>j\<close> of the product is the left matrix applied to column
  \<open>j\<close> of the right one.\<close>

definition mat4_mul :: "mat4 \<Rightarrow> mat4 \<Rightarrow> mat4" where
  "mat4_mul a b =
     (case b of (b0, b1, b2, b3) \<Rightarrow>
        (mat4_mul_vec a b0, mat4_mul_vec a b1, mat4_mul_vec a b2, mat4_mul_vec a b3))"

text \<open>\<^verbatim>\<open>glm::mat4(1)\<close>.\<close>

definition mat4_identity :: mat4 where
  "mat4_identity = ((1, 0, 0, 0), (0, 1, 0, 0), (0, 0, 1, 0), (0, 0, 0, 1))"

text \<open>A uniform scaling matrix, used for concrete inputs.\<close>

definition mat4_diag :: "scalar \<Rightarrow> mat4" where
  "mat4_diag k = ((k, 0, 0, 0), (0, k, 0, 0), (0, 0, k, 0), (0, 0, 0, k))"

definition mat4_transpose :: "mat4 \<Rightarrow> mat4" where
  "mat4_transpose m =
     (case m of ((a0, a1, a2, a3), (b0, b1, b2, b3), (c0, c1, c2, c3), (d0, d1, d2, d3)) \<Rightarrow>
        ((a0, b0, c0, d0), (a1, b1, c1, d1), (a2, b2, c2, d2), (a3, b3, c3, d3)))"

section \<open>Errors\<close>

text \<open>
  The C++ has no recoverable errors on these paths. An out-of-range \<^verbatim>\<open>operator[]\<close>
  or a dereference of \<^verbatim>\<open>begin()\<close> of an empty container is undefined behaviour, and
  a failed \<^verbatim>\<open>assert\<close> aborts; both are results of the model. Assertions are taken
  as compiled in.
\<close>

datatype error = UndefinedBehaviour | AssertionFailed

definition and_then :: "error + 'a \<Rightarrow> ('a \<Rightarrow> error + 'b) \<Rightarrow> error + 'b" where
  "and_then r f = (case r of Inl e \<Rightarrow> Inl e | Inr x \<Rightarrow> f x)"

text \<open>\<^verbatim>\<open>v[i]\<close> on a \<^verbatim>\<open>std::vector\<close> with a signed index.\<close>

definition elem_at :: "'a list \<Rightarrow> int \<Rightarrow> error + 'a" where
  "elem_at xs i = (if 0 \<le> i \<and> nat i < length xs then Inr (xs ! nat i) else Inl UndefinedBehaviour)"

text \<open>\<^verbatim>\<open>GLsizei(n)\<close> for a \<^verbatim>\<open>size_t\<close> \<open>n\<close>: the low 32 bits, read as signed.\<close>

definition GLsizei :: "nat \<Rightarrow> int" where
  "GLsizei n = sint (word_of_nat n :: 32 word)"

text \<open>The sum of two \<^verbatim>\<open>size_t\<close> values wraps around; \<^verbatim>\<open>size_t\<close> (and a
  pointer) is taken as 64 bits wide.\<close>

definition size_t_add :: "nat \<Rightarrow> nat \<Rightarrow> nat" where
  "size_t_add a b = (a + b) mod 2 ^ 64"

section \<open>The scene document\<close>

text \<open>
  The fields of \<^verbatim>\<open>tinygltf::Model\<close> that the viewer reads. The header that declares
  them is not part of the sources; the fields are taken as the code uses them. An absent
  reference is a negative index. A texture reference of a material is the \<^verbatim>\<open>index\<close>
  of its texture info; \<open>occlusionStrength\<close> is \<^verbatim>\<open>occlusionTexture.strength\<close>. The
  colour factors, which the code reads at the indices 0 to 3 (0 to 2 for the emissive
  factor), are tuples. \<open>accByteOffset\<close> is the accessor's \<^verbatim>\<open>byteOffset\<close> and
  \<open>pixels\<close> the image's byte vector. \<^verbatim>\<open>Primitive::attributes\<close> is a
  \<^verbatim>\<open>std::map<std::string, int>\<close>, modelled by its iteration sequence (ascending
  keys), so that \<^verbatim>\<open>begin()\<close> is the head of the list.
\<close>

record Texture =
  source :: int
  sampler :: int

record PbrMetallicRoughness =
  baseColorFactor :: vec4
  baseColorTexture :: int
  metallicFactor :: scalar
  roughnessFactor :: scalar
  metallicRoughnessTexture :: int

record Material =
  pbrMetallicRoughness :: PbrMetallicRoughness
  emissiveFactor :: vec3
  emissiveTexture :: int
  occlusionTexture :: int
  occlusionStrength :: scalar

record Accessor =
  bufferView :: int
  accByteOffset :: nat
  componentType :: int
  count :: nat
  accType :: int

record BufferView =
  buffer :: int
  byteOffset :: nat
  byteStride :: nat
  target :: int

record Primitive =
  attributes :: "(string \<times> int) list"
  indices :: int
  material :: int
  mode :: int

record Mesh =
  primitives :: "Primitive list"

text \<open>
  A node. Its transform fields (an explicit matrix, or translation, rotation and scale)
  are read only by \<^verbatim>\<open>getLocalToWorldMatrix\<close>; the node carries the local
  transform they stand for as one matrix.
\<close>

record Node =
  mesh :: int
  children :: "int list"
  localTransform :: mat4

text \<open>
  Modelled from the spec: \<^verbatim>\<open>getLocalToWorldMatrix\<close> (declared in
  \<^verbatim>\<open>utils/gltf.hpp\<close>) is not part of the sources. The spec composes
  \<^verbatim>\<open>worldTransform = parentTransform * node.localTransform\<close>, where the local
  transform is the node's explicit matrix or its translation times rotation times scale.
\<close>

definition getLocalToWorldMatrix :: "Node \<Rightarrow> mat4 \<Rightarrow> mat4" where
  "getLocalToWorldMatrix node parentMatrix = mat4_mul parentMatrix (localTransform node)"

record Scene =
  sceneNodes :: "int list"

record Image =
  width :: int
  height :: int
  pixel_type :: int
  pixels :: "nat list"

record Sampler =
  minFilter :: int
  magFilter :: int
  wrapS :: int
  wrapT :: int
  wrapR :: int

record Model =
  accessors :: "Accessor list"
  bufferViews :: "BufferView list"
  buffers :: "nat list list"
  images :: "Image list"
  samplers :: "Sampler list"
  textures :: "Texture list"
  materials :: "Material list"
  meshes :: "Mesh list"
  nodes :: "Node list"
  scenes :: "Scene list"
  defaultScene :: int

section \<open>The device interface\<close>

text \<open>
  The viewer never reads the device back on these paths: each routine is the sequence of
  OpenGL calls it issues. Texture units are numbered from \<^verbatim>\<open>GL_TEXTURE0\<close>;
  \<^verbatim>\<open>glBindTexture\<close> is always on \<^verbatim>\<open>GL_TEXTURE_2D\<close>. A call keeps the
  arguments that vary: \<open>glDrawElements mode count type offset\<close>,
  \<open>glDrawArrays mode first count\<close>, \<open>glGen* n\<close>, \<open>glBindBuffer target name\<close>,
  \<open>glBufferStorage target bytes\<close>, \<open>glVertexAttribPointer index size type stride offset\<close>,
  \<open>glTexImage2D width height pixelType bytes\<close> and \<open>glTexParameteri name value\<close>.
\<close>

datatype gl_call =
    glViewport int int nat nat
  | glClear
  | glUniform1i int int
  | glUniform1f int scalar
  | glUniform3f int scalar scalar scalar
  | glUniform4f int scalar scalar scalar scalar
  | glUniformMatrix4fv int mat4
  | glActiveTexture nat
  | glBindTexture nat
  | glBindVertexArray nat
  | glDrawElements int int int nat
  | glDrawArrays int int int
  | glGenBuffers int
  | glGenVertexArrays int
  | glGenTextures int
  | glBindBuffer int nat
  | glBufferStorage int "nat list"
  | glEnableVertexAttribArray nat
  | glVertexAttribPointer nat int int int nat
  | glTexImage2D int int int "nat list"
  | glTexParameteri int int
  | glGenerateMipmap

fun is_draw :: "gl_call \<Rightarrow> bool" where
  "is_draw (glDrawElements m c t off) = True"
| "is_draw (glDrawArrays m f c) = True"
| "is_draw other = False"

text \<open>The draw calls of a call sequence, in order.\<close>

definition issued_draws :: "gl_call list \<Rightarrow> gl_call list" where
  "issued_draws cs = filter is_draw cs"

text \<open>The uniform locations that \<^verbatim>\<open>run\<close> queries from the shading program;
  \<open>-1\<close> when the program does not declare the uniform.\<close>

record Locations =
  modelViewProjMatrixLocation :: int
  modelViewMatrixLocation :: int
  normalMatrixLocation :: int
  uLightDirectionLocation :: int
  uLightIntensity :: int
  uBaseColorTexture :: int
  uBaseColorFactor :: int
  uMetallicRoughness :: int
  uMetallicFactor :: int
  uRoughnessFactor :: int
  uEmissiveTexture :: int
  uEmissiveFactor :: int
  uOcclusionTexture :: int
  uOcclusionStrength :: int
  uApplyOcclusion :: int

text \<open>What the closures of \<^verbatim>\<open>run\<close> capture.\<close>

record Env =
  model :: Model
  locs :: Locations
  whiteTexture :: nat
  textureObjects :: "nat list"
  vertexArrayObjects :: "nat list"
  meshToVA :: "(int \<times> int) list"
  viewMatrix :: mat4
  projMatrix :: mat4
  glm_inverse :: "mat4 \<Rightarrow> mat4"
  glm_normalize :: "vec3 \<Rightarrow> vec3"
  lightDirection :: vec3
  lightIntensity :: vec3
  lightFromCamera :: bool
  applyOcclusion :: bool
  windowWidth :: nat
  windowHeight :: nat

section \<open>Material binding\<close>

text \<open>
  The lookup that \<^verbatim>\<open>bindMaterial\<close> repeats for each optional texture: start from a
  fallback; if the reference is non-negative read the texture record, and if its image
  source is non-negative read \<^verbatim>\<open>textureObjects[texture.source]\<close>.
\<close>

definition lookupTextureObject :: "Env \<Rightarrow> nat \<Rightarrow> int \<Rightarrow> error + nat" where
  "lookupTextureObject env fallback idx =
     (if idx \<ge> 0 then
        and_then (elem_at (textures (model env)) idx) (\<lambda>texture.
          if source texture \<ge> 0 then elem_at (textureObjects env) (source texture)
          else Inr fallback)
      else Inr fallback)"

text \<open>
  The branch of \<^verbatim>\<open>bindMaterial\<close> for a present material, block by block in the
  order of the source. The blocks that look a texture up can be undefined.
\<close>

definition baseColorFactorCalls :: "Env \<Rightarrow> PbrMetallicRoughness \<Rightarrow> gl_call list" where
  "baseColorFactorCalls env pbr =
     (if uBaseColorFactor (locs env) \<ge> 0
      then (case baseColorFactor pbr of (r, g, b, a) \<Rightarrow>
              [glUniform4f (uBaseColorFactor (locs env)) r g b a])
      else [])"

definition baseColorTextureCalls :: "Env \<Rightarrow> PbrMetallicRoughness \<Rightarrow> error + gl_call list" where
  "baseColorTextureCalls env pbr =
     (if uBaseColorTexture (locs env) \<ge> 0
      then and_then (lookupTextureObject env (whiteTexture env) (baseColorTexture pbr))
             (\<lambda>textureObject. Inr
                ((if uBaseColorFactor (locs env) \<ge> 0
                  then [glUniform4f (uBaseColorFactor (locs env)) 1 1 1 1] else [])
                 @ [glActiveTexture 0, glBindTexture textureObject,
                    glUniform1i (uBaseColorTexture (locs env)) 0]))
      else Inr [])"

definition metallicRoughnessFactorCalls :: "Env \<Rightarrow> PbrMetallicRoughness \<Rightarrow> gl_call list" where
  "metallicRoughnessFactorCalls env pbr =
       (if uMetallicFactor (locs env) \<ge> 0
        then [glUniform1f (uMetallicFactor (locs env)) (metallicFactor pbr)] else [])
     @ (if uRoughnessFactor (locs env) \<ge> 0
        then [glUniform1f (uRoughnessFactor (locs env)) (roughnessFactor pbr)] else [])"

text \<open>The metallic-roughness texture object is looked up and not bound.\<close>

definition metallicRoughnessTextureCalls ::
  "Env \<Rightarrow> PbrMetallicRoughness \<Rightarrow> error + gl_call list" where
  "metallicRoughnessTextureCalls env pbr =
     (if uMetallicRoughness (locs env) \<ge> 0
      then and_then (lookupTextureObject env 0 (metallicRoughnessTexture pbr))
             (\<lambda>textureObject. Inr [])
      else Inr [])"

definition emissiveFactorCalls :: "Env \<Rightarrow> Material \<Rightarrow> gl_call list" where
  "emissiveFactorCalls env mat =
     (if uEmissiveFactor (locs env) \<ge> 0
      then (case emissiveFactor mat of (r, g, b) \<Rightarrow>
              [glUniform3f (uEmissiveFactor (locs env)) r g b])
      else [])"

definition emissiveTextureCalls :: "Env \<Rightarrow> Material \<Rightarrow> error + gl_call list" where
  "emissiveTextureCalls env mat =
     (if uEmissiveTexture (locs env) \<ge> 0
      then and_then (lookupTextureObject env 0 (emissiveTexture mat))
             (\<lambda>textureObject. Inr
                [glActiveTexture 2, glBindTexture textureObject,
                 glUniform1i (uEmissiveTexture (locs env)) 2])
      else Inr [])"

definition occlusionStrengthCalls :: "Env \<Rightarrow> Material \<Rightarrow> gl_call list" where
  "occlusionStrengthCalls env mat =
     (if uOcclusionStrength (locs env) \<ge> 0
      then [glUniform1f (uOcclusionStrength (locs env)) (occlusionStrength mat)]
      else [])"

definition occlusionTextureCalls :: "Env \<Rightarrow> Material \<Rightarrow> error + gl_call list" where
  "occlusionTextureCalls env mat =
     (if uOcclusionTexture (locs env) \<ge> 0
      then and_then (lookupTextureObject env (whiteTexture env) (occlusionTexture mat))
             (\<lambda>textureObject. Inr
                [glActiveTexture 3, glBindTexture textureObject,
                 glUniform1i (uOcclusionTexture (locs env)) 3])
      else Inr [])"

definition bindPresentMaterial :: "Env \<Rightarrow> Material \<Rightarrow> error + gl_call list" where
  "bindPresentMaterial env mat =
     (let pbr = pbrMetallicRoughness mat in
      and_then (baseColorTextureCalls env pbr) (\<lambda>baseColorTex.
      and_then (metallicRoughnessTextureCalls env pbr) (\<lambda>metallicRoughnessTex.
      and_then (emissiveTextureCalls env mat) (\<lambda>emissiveTex.
      and_then (occlusionTextureCalls env mat) (\<lambda>occlusionTex.
        Inr (baseColorFactorCalls env pbr @ baseColorTex
             @ metallicRoughnessFactorCalls env pbr @ metallicRoughnessTex
             @ emissiveFactorCalls env mat @ emissiveTex
             @ occlusionStrengthCalls env mat @ occlusionTex))))))"

definition bindNoMaterial :: "Env \<Rightarrow> gl_call list" where
  "bindNoMaterial env =
     (let l = locs env in
        (if uBaseColorFactor l \<ge> 0 then [glUniform4f (uBaseColorFactor l) 1 1 1 1] else [])
      @ (if uBaseColorTexture l \<ge> 0
         then [glActiveTexture 0, glBindTexture (whiteTexture env),
               glUniform1i (uBaseColorTexture l) 0] else [])
      @ (if uMetallicFactor l \<ge> 0 then [glUniform1f (uMetallicFactor l) 1] else [])
      @ (if uRoughnessFactor l \<ge> 0 then [glUniform1f (uRoughnessFactor l) 1] else [])
      @ (if uEmissiveFactor l \<ge> 0 then [glUniform3f (uEmissiveFactor l) 0 0 0] else [])
      @ (if uEmissiveTexture l \<ge> 0
         then [glActiveTexture 2, glBindTexture 0, glUniform1i (uEmissiveTexture l) 2] else [])
      @ (if uOcclusionStrength l \<ge> 0 then [glUniform1f (uOcclusionStrength l) 0] else [])
      @ (if uOcclusionTexture l \<ge> 0
         then [glActiveTexture 3, glBindTexture 0, glUniform1i (uOcclusionTexture l) 3] else []))"

definition bindMaterial :: "Env \<Rightarrow> int \<Rightarrow> error + gl_call list" where
  "bindMaterial env materialIndex =
     (if materialIndex \<ge> 0
      then and_then (elem_at (materials (model env)) materialIndex) (bindPresentMaterial env)
      else Inr (bindNoMaterial env))"

section \<open>The device state a call sequence leaves\<close>

text \<open>
  The part of the OpenGL state machine that the properties below read: the values of the
  program's uniforms by location, the active texture unit, the texture bound to
  \<^verbatim>\<open>GL_TEXTURE_2D\<close> on each unit, the bound vertex array, the buffer bound to
  \<^verbatim>\<open>GL_ARRAY_BUFFER\<close> and the contents of the buffer objects. A \<^verbatim>\<open>glUniform*\<close>
  at a negative location changes nothing. Calls that touch other state leave this part
  unchanged.
\<close>

datatype uniform_value =
    U1i int
  | U1f scalar
  | U3f scalar scalar scalar
  | U4f scalar scalar scalar scalar
  | UMat4 mat4

record Device =
  uniform :: "int \<Rightarrow> uniform_value option"
  activeTexture :: nat
  boundTexture :: "nat \<Rightarrow> nat"
  boundVertexArray :: nat
  arrayBuffer :: nat
  bufferStore :: "nat \<Rightarrow> nat list option"

definition GL_ARRAY_BUFFER :: int where
  "GL_ARRAY_BUFFER = 34962"

definition GL_ELEMENT_ARRAY_BUFFER :: int where
  "GL_ELEMENT_ARRAY_BUFFER = 34963"

definition set_uniform :: "int \<Rightarrow> uniform_value \<Rightarrow> Device \<Rightarrow> Device" where
  "set_uniform loc v d = (if loc < 0 then d else d\<lparr>uniform := (uniform d)(loc := Some v)\<rparr>)"

fun apply_call :: "gl_call \<Rightarrow> Device \<Rightarrow> Device" where
  "apply_call (glUniform1i loc i) d = set_uniform loc (U1i i) d"
| "apply_call (glUniform1f loc x) d = set_uniform loc (U1f x) d"
| "apply_call (glUniform3f loc x y z) d = set_uniform loc (U3f x y z) d"
| "apply_call (glUniform4f loc x y z w) d = set_uniform loc (U4f x y z w) d"
| "apply_call (glUniformMatrix4fv loc m) d = set_uniform loc (UMat4 m) d"
| "apply_call (glActiveTexture u) d = d\<lparr>activeTexture := u\<rparr>"
| "apply_call (glBindTexture t) d = d\<lparr>boundTexture := (boundTexture d)(activeTexture d := t)\<rparr>"
| "apply_call (glBindVertexArray v) d = d\<lparr>boundVertexArray := v\<rparr>"
| "apply_call (glBindBuffer tgt b) d = (if tgt = GL_ARRAY_BUFFER then d\<lparr>arrayBuffer := b\<rparr> else d)"
| "apply_call (glBufferStorage tgt bytes) d =
     (if tgt = GL_ARRAY_BUFFER
      then d\<lparr>bufferStore := (bufferStore d)(arrayBuffer d := Some bytes)\<rparr> else d)"
| "apply_call other d = d"

definition run_calls :: "gl_call list \<Rightarrow> Device \<Rightarrow> Device" where
  "run_calls cs d = foldl (\<lambda>s c. apply_call c s) d cs"

text \<open>
  The material state a draw reads: each material uniform of the program and the texture
  bound on the units 0 (base colour), 2 (emissive) and 3 (occlusion).
\<close>

record MaterialBindings =
  baseColorFactorUniform :: "uniform_value option"
  baseColorUnit :: nat
  baseColorSampler :: "uniform_value option"
  metallicFactorUniform :: "uniform_value option"
  roughnessFactorUniform :: "uniform_value option"
  emissiveFactorUniform :: "uniform_value option"
  emissiveUnit :: nat
  emissiveSampler :: "uniform_value option"
  occlusionStrengthUniform :: "uniform_value option"
  occlusionUnit :: nat
  occlusionSampler :: "uniform_value option"

definition material_bindings :: "Locations \<Rightarrow> Device \<Rightarrow> MaterialBindings" where
  "material_bindings l d =
     \<lparr>baseColorFactorUniform = uniform d (uBaseColorFactor l),
      baseColorUnit = boundTexture d 0,
      baseColorSampler = uniform d (uBaseColorTexture l),
      metallicFactorUniform = uniform d (uMetallicFactor l),
      roughnessFactorUniform = uniform d (uRoughnessFactor l),
      emissiveFactorUniform = uniform d (uEmissiveFactor l),
      emissiveUnit = boundTexture d 2,
      emissiveSampler = uniform d (uEmissiveTexture l),
      occlusionStrengthUniform = uniform d (uOcclusionStrength l),
      occlusionUnit = boundTexture d 3,
      occlusionSampler = uniform d (uOcclusionTexture l)\<rparr>"

text \<open>The table of neutral defaults, for a given neutral white texture.\<close>

definition neutral_defaults :: "nat \<Rightarrow> MaterialBindings" where
  "neutral_defaults white =
     \<lparr>baseColorFactorUniform = Some (U4f 1 1 1 1),
      baseColorUnit = white,
      baseColorSampler = Some (U1i 0),
      metallicFactorUniform = Some (U1f 1),
      roughnessFactorUniform = Some (U1f 1),
      emissiveFactorUniform = Some (U3f 0 0 0),
      emissiveUnit = 0,
      emissiveSampler = Some (U1i 2),
      occlusionStrengthUniform = Some (U1f 0),
      occlusionUnit = 0,
      occlusionSampler = Some (U1i 3)\<rparr>"

text \<open>
  The shading program declares every material uniform that carries a field of the table:
  each location is non-negative, and different uniforms have different locations.
\<close>

definition material_uniforms_declared :: "Locations \<Rightarrow> bool" where
  "material_uniforms_declared l =
     (0 \<le> uBaseColorFactor l \<and> 0 \<le> uBaseColorTexture l \<and> 0 \<le> uMetallicFactor l \<and>
      0 \<le> uRoughnessFactor l \<and> 0 \<le> uEmissiveFactor l \<and> 0 \<le> uEmissiveTexture l \<and>
      0 \<le> uOcclusionStrength l \<and> 0 \<le> uOcclusionTexture l \<and>
      distinct [uBaseColorFactor l, uBaseColorTexture l, uMetallicFactor l,
                uRoughnessFactor l, uEmissiveFactor l, uEmissiveTexture l,
                uOcclusionStrength l, uOcclusionTexture l])"

text \<open>The binding set that \<^verbatim>\<open>bindMaterial\<close> leaves on a device that was in state
  \<open>d\<close>.\<close>

definition resolve :: "Env \<Rightarrow> int \<Rightarrow> Device \<Rightarrow> error + MaterialBindings" where
  "resolve env materialIndex d =
     and_then (bindMaterial env materialIndex)
       (\<lambda>cs. Inr (material_bindings (locs env) (run_calls cs d)))"

section \<open>Traversal and draw submission\<close>

text \<open>
  One iteration of the loop over the primitives of a mesh. The index
  \<^verbatim>\<open>vaoRange.begin + prIdx\<close> is computed in \<^verbatim>\<open>size_t\<close>; for a table shorter than
  \<open>2^64\<close> it is in range exactly when the integer sum is.
\<close>

definition drawPrimitive :: "Env \<Rightarrow> int \<times> int \<Rightarrow> nat \<Rightarrow> Primitive \<Rightarrow> error + gl_call list" where
  "drawPrimitive env vaoRange prIdx primitive =
     and_then (elem_at (vertexArrayObjects env) (fst vaoRange + int prIdx)) (\<lambda>vao.
     and_then (bindMaterial env (material primitive)) (\<lambda>materialCalls.
     and_then
       (if indices primitive \<ge> 0 then
          and_then (elem_at (accessors (model env)) (indices primitive)) (\<lambda>accessor.
          and_then (elem_at (bufferViews (model env)) (bufferView accessor)) (\<lambda>view.
            Inr [glDrawElements (mode primitive) (GLsizei (count accessor))
                   (componentType accessor) (size_t_add (accByteOffset accessor) (byteOffset view))]))
        else
          (case attributes primitive of
             [] \<Rightarrow> Inl UndefinedBehaviour
           | (name, accessorIdx) # rest \<Rightarrow>
               and_then (elem_at (accessors (model env)) accessorIdx) (\<lambda>accessor.
                 Inr [glDrawArrays (mode primitive) 0 (GLsizei (count accessor))])))
       (\<lambda>drawCall. Inr (materialCalls @ [glBindVertexArray vao] @ drawCall))))"

fun drawPrimitives :: "Env \<Rightarrow> int \<times> int \<Rightarrow> nat \<Rightarrow> Primitive list \<Rightarrow> error + gl_call list" where
  "drawPrimitives env vaoRange prIdx [] = Inr []"
| "drawPrimitives env vaoRange prIdx (p # ps) =
     and_then (drawPrimitive env vaoRange prIdx p) (\<lambda>c.
     and_then (drawPrimitives env vaoRange (Suc prIdx) ps) (\<lambda>cs. Inr (c @ cs)))"

text \<open>
  The draw call that belongs to a primitive: indexed, sized by its index accessor, when it
  declares an index buffer; otherwise non-indexed, sized by the accessor of the first
  entry of its attribute map.
\<close>

definition indexAccessor :: "Model \<Rightarrow> Primitive \<Rightarrow> Accessor" where
  "indexAccessor m p = accessors m ! nat (indices p)"

definition firstAttributeAccessor :: "Model \<Rightarrow> Primitive \<Rightarrow> Accessor" where
  "firstAttributeAccessor m p = accessors m ! nat (snd (hd (attributes p)))"

definition primitiveDraw :: "Model \<Rightarrow> Primitive \<Rightarrow> gl_call" where
  "primitiveDraw m p =
     (if indices p \<ge> 0 then
        glDrawElements (mode p) (GLsizei (count (indexAccessor m p)))
          (componentType (indexAccessor m p))
          (size_t_add (accByteOffset (indexAccessor m p))
             (byteOffset (bufferViews m ! nat (bufferView (indexAccessor m p)))))
      else glDrawArrays (mode p) 0 (GLsizei (count (firstAttributeAccessor m p))))"

text \<open>The body of \<^verbatim>\<open>drawNode\<close> before the recursion: the draws of the node's own
  mesh, if it has one, under the node's local-to-world matrix.\<close>

definition drawMesh :: "Env \<Rightarrow> Node \<Rightarrow> mat4 \<Rightarrow> error + gl_call list" where
  "drawMesh env node modelMatrix =
     (if mesh node \<ge> 0 then
        (let modelViewMatrix = mat4_mul (viewMatrix env) modelMatrix;
             modelViewProjectionMatrix = mat4_mul (projMatrix env) modelViewMatrix;
             normalMatrix = mat4_transpose (glm_inverse env modelViewMatrix)
         in
         and_then (elem_at (meshes (model env)) (mesh node)) (\<lambda>m.
         and_then (elem_at (meshToVA env) (mesh node)) (\<lambda>vaoRange.
         and_then (drawPrimitives env vaoRange 0 (primitives m)) (\<lambda>cs.
           Inr ([glUniformMatrix4fv (modelViewMatrixLocation (locs env)) modelMatrix,
                 glUniformMatrix4fv (modelViewProjMatrixLocation (locs env))
                   modelViewProjectionMatrix,
                 glUniformMatrix4fv (normalMatrixLocation (locs env)) normalMatrix]
                @ cs @ [glBindVertexArray 0])))))
      else Inr [])"

text \<open>
  A loop that calls \<open>visit\<close> on each node index in turn with the same parent matrix.
  \<open>None\<close> is a recursion that did not return.
\<close>

fun each_node ::
  "(int \<Rightarrow> mat4 \<Rightarrow> (error + gl_call list) option) \<Rightarrow> int list \<Rightarrow> mat4
     \<Rightarrow> (error + gl_call list) option" where
  "each_node visit [] parentMatrix = Some (Inr [])"
| "each_node visit (nodeIdx # rest) parentMatrix =
     (case visit nodeIdx parentMatrix of
        None \<Rightarrow> None
      | Some (Inl e) \<Rightarrow> Some (Inl e)
      | Some (Inr c) \<Rightarrow>
          (case each_node visit rest parentMatrix of
             None \<Rightarrow> None
           | Some (Inl e) \<Rightarrow> Some (Inl e)
           | Some (Inr cs) \<Rightarrow> Some (Inr (c @ cs))))"

text \<open>
  \<^verbatim>\<open>drawNode\<close> recurses along child indices and does not return on a cyclic node
  graph. The first argument bounds the depth of the recursion.
\<close>

primrec drawNode :: "nat \<Rightarrow> Env \<Rightarrow> int \<Rightarrow> mat4 \<Rightarrow> (error + gl_call list) option" where
  "drawNode 0 env nodeIdx parentMatrix = None"
| "drawNode (Suc fuel) env nodeIdx parentMatrix =
     (case elem_at (nodes (model env)) nodeIdx of
        Inl e \<Rightarrow> Some (Inl e)
      | Inr node \<Rightarrow>
          (let modelMatrix = getLocalToWorldMatrix node parentMatrix in
           case drawMesh env node modelMatrix of
             Inl e \<Rightarrow> Some (Inl e)
           | Inr c \<Rightarrow>
               (case each_node (drawNode fuel env) (children node) modelMatrix of
                  None \<Rightarrow> None
                | Some (Inl e) \<Rightarrow> Some (Inl e)
                | Some (Inr cs) \<Rightarrow> Some (Inr (c @ cs)))))"

text \<open>The per-frame uniforms. \<^verbatim>\<open>camera.getViewMatrix()\<close> is the environment's view
  matrix.\<close>

definition lightUniforms :: "Env \<Rightarrow> gl_call list" where
  "lightUniforms env =
     (if lightFromCamera env then [glUniform3f (uLightDirectionLocation (locs env)) 0 0 1]
      else
        (case lightDirection env of (x, y, z) \<Rightarrow>
           case mat4_mul_vec (viewMatrix env) (x, y, z, 0) of (vx, vy, vz, vw) \<Rightarrow>
             case glm_normalize env (vx, vy, vz) of (nx, ny, nz) \<Rightarrow>
               [glUniform3f (uLightDirectionLocation (locs env)) nx ny nz]))
     @ (if uLightIntensity (locs env) \<ge> 0
        then (case lightIntensity env of (r, g, b) \<Rightarrow>
                [glUniform3f (uLightIntensity (locs env)) r g b])
        else [])
     @ (if uApplyOcclusion (locs env) \<ge> 0
        then [glUniform1i (uApplyOcclusion (locs env)) (if applyOcclusion env then 1 else 0)]
        else [])"

definition drawScene :: "nat \<Rightarrow> Env \<Rightarrow> (error + gl_call list) option" where
  "drawScene fuel env =
     (let frame = [glViewport 0 0 (windowWidth env) (windowHeight env), glClear]
                  @ lightUniforms env
      in
      if defaultScene (model env) \<ge> 0 then
        (case elem_at (scenes (model env)) (defaultScene (model env)) of
           Inl e \<Rightarrow> Some (Inl e)
         | Inr scene \<Rightarrow>
             (case each_node (drawNode fuel env) (sceneNodes scene) mat4_identity of
                None \<Rightarrow> None
              | Some (Inl e) \<Rightarrow> Some (Inl e)
              | Some (Inr cs) \<Rightarrow> Some (Inr (frame @ cs))))
      else Some (Inr frame))"

section \<open>Device resources\<close>

text \<open>
  \<^verbatim>\<open>glGen*(n, p)\<close> writes \<open>n\<close> unused names to \<open>p[0]\<close>, ..., \<open>p[n-1]\<close> and
  nothing when \<open>n\<close> is negative. Which names the driver hands out is not specified; the
  model hands out consecutive ones from a counter. Here \<open>p\<close> is the address of element
  \<open>off\<close> of the array \<open>arr\<close>.
\<close>

definition glGen :: "int \<Rightarrow> nat list \<Rightarrow> nat \<Rightarrow> nat \<Rightarrow> nat list \<times> nat" where
  "glGen n arr off fresh =
     (if n < 0 then (arr, fresh)
      else (take off arr @ map (\<lambda>k. fresh + k) [0 ..< nat n] @ drop (off + nat n) arr,
            fresh + nat n))"

definition createBufferObjects :: "Model \<Rightarrow> nat \<Rightarrow> nat list \<times> gl_call list \<times> nat" where
  "createBufferObjects m fresh =
     (let n = length (buffers m);
          (bufferObjects, fresh') = glGen (GLsizei n) (replicate n 0) 0 fresh
      in (bufferObjects,
          [glGenBuffers (GLsizei n)]
          @ concat (map (\<lambda>i. [glBindBuffer GL_ARRAY_BUFFER (bufferObjects ! i),
                                glBufferStorage GL_ARRAY_BUFFER (buffers m ! i)]) [0 ..< n])
          @ [glBindBuffer GL_ARRAY_BUFFER 0],
          fresh'))"

definition VERTEX_ATTRIB_POSITION_IDX :: nat where
  "VERTEX_ATTRIB_POSITION_IDX = 0"

definition VERTEX_ATTRIB_NORMAL_IDX :: nat where
  "VERTEX_ATTRIB_NORMAL_IDX = 1"

definition VERTEX_ATTRIB_TEXCOORD0_IDX :: nat where
  "VERTEX_ATTRIB_TEXCOORD0_IDX = 2"

text \<open>The block for \<^verbatim>\<open>POSITION\<close> and for \<^verbatim>\<open>NORMAL\<close>, once the attribute is
  found.\<close>

definition vertexAttribute :: "Model \<Rightarrow> nat list \<Rightarrow> nat \<Rightarrow> int \<Rightarrow> error + gl_call list" where
  "vertexAttribute m bufferObjects attribIdx accessorIdx =
     and_then (elem_at (accessors m) accessorIdx) (\<lambda>accessor.
     and_then (elem_at (bufferViews m) (bufferView accessor)) (\<lambda>view.
     and_then (elem_at bufferObjects (buffer view)) (\<lambda>bufferObject.
       Inr [glEnableVertexAttribArray attribIdx,
            glBindBuffer GL_ARRAY_BUFFER bufferObject,
            glVertexAttribPointer attribIdx (accType accessor) (componentType accessor)
              (GLsizei (byteStride view)) (size_t_add (accByteOffset accessor) (byteOffset view))])))"

text \<open>The block for \<^verbatim>\<open>TEXCOORD_0\<close>: it also copies the buffer and asserts the
  buffer view's target.\<close>

definition texCoordAttribute :: "Model \<Rightarrow> nat list \<Rightarrow> int \<Rightarrow> error + gl_call list" where
  "texCoordAttribute m bufferObjects accessorIdx =
     and_then (elem_at (accessors m) accessorIdx) (\<lambda>accessor.
     and_then (elem_at (bufferViews m) (bufferView accessor)) (\<lambda>view.
     and_then (elem_at (buffers m) (buffer view)) (\<lambda>bytes.
     and_then (elem_at bufferObjects (buffer view)) (\<lambda>bufferObject.
       if target view = GL_ARRAY_BUFFER then
         Inr [glEnableVertexAttribArray VERTEX_ATTRIB_TEXCOORD0_IDX,
              glBindBuffer GL_ARRAY_BUFFER bufferObject,
              glVertexAttribPointer VERTEX_ATTRIB_TEXCOORD0_IDX (accType accessor)
                (componentType accessor) (GLsizei (byteStride view))
                (size_t_add (accByteOffset accessor) (byteOffset view))]
       else Inl AssertionFailed))))"

definition indexBuffer :: "Model \<Rightarrow> nat list \<Rightarrow> int \<Rightarrow> error + gl_call list" where
  "indexBuffer m bufferObjects accessorIdx =
     and_then (elem_at (accessors m) accessorIdx) (\<lambda>accessor.
     and_then (elem_at (bufferViews m) (bufferView accessor)) (\<lambda>view.
     and_then (elem_at bufferObjects (buffer view)) (\<lambda>bufferObject.
       Inr [glBindBuffer GL_ELEMENT_ARRAY_BUFFER bufferObject])))"

text \<open>One iteration of the loop over the primitives of the current mesh.\<close>

definition setupPrimitive ::
  "Model \<Rightarrow> nat list \<Rightarrow> nat list \<Rightarrow> int \<Rightarrow> nat \<Rightarrow> Primitive \<Rightarrow> error + gl_call list" where
  "setupPrimitive m bufferObjects vaos vaoBegin pIdx primitive =
     and_then (elem_at vaos (vaoBegin + int pIdx)) (\<lambda>vao.
     and_then (case map_of (attributes primitive) ''POSITION'' of
                 None \<Rightarrow> Inr []
               | Some a \<Rightarrow> vertexAttribute m bufferObjects VERTEX_ATTRIB_POSITION_IDX a) (\<lambda>c1.
     and_then (case map_of (attributes primitive) ''NORMAL'' of
                 None \<Rightarrow> Inr []
               | Some a \<Rightarrow> vertexAttribute m bufferObjects VERTEX_ATTRIB_NORMAL_IDX a) (\<lambda>c2.
     and_then (case map_of (attributes primitive) ''TEXCOORD_0'' of
                 None \<Rightarrow> Inr []
               | Some a \<Rightarrow> texCoordAttribute m bufferObjects a) (\<lambda>c3.
     and_then (if indices primitive \<ge> 0 then indexBuffer m bufferObjects (indices primitive)
               else Inr []) (\<lambda>c4.
       Inr ([glBindVertexArray vao] @ c1 @ c2 @ c3 @ c4))))))"

fun setupPrimitives ::
  "Model \<Rightarrow> nat list \<Rightarrow> nat list \<Rightarrow> int \<Rightarrow> nat \<Rightarrow> Primitive list \<Rightarrow> error + gl_call list" where
  "setupPrimitives m bufferObjects vaos vaoBegin pIdx [] = Inr []"
| "setupPrimitives m bufferObjects vaos vaoBegin pIdx (p # ps) =
     and_then (setupPrimitive m bufferObjects vaos vaoBegin pIdx p) (\<lambda>c.
     and_then (setupPrimitives m bufferObjects vaos vaoBegin (Suc pIdx) ps) (\<lambda>cs.
       Inr (c @ cs)))"

text \<open>
  The state of the loop over the meshes: the draw handles so far, the range table, the
  name counter and the calls issued.
\<close>

record VaoState =
  vaoHandles :: "nat list"
  vaoRanges :: "(int \<times> int) list"
  vaoFresh :: nat
  vaoCalls :: "gl_call list"

text \<open>
  One iteration of the loop over the meshes, for mesh \<open>i\<close>. The range is written as
  \<open>(begin, count)\<close>. \<^verbatim>\<open>&vertexArrayObjects[vaoRange.begin]\<close> is an element access
  after the resize: it is out of range when the mesh has no primitive and the array ends
  at \<open>begin\<close>.
\<close>

definition setupMesh :: "Model \<Rightarrow> nat list \<Rightarrow> nat \<Rightarrow> Mesh \<Rightarrow> VaoState \<Rightarrow> error + VaoState" where
  "setupMesh m bufferObjects i msh st =
     (let vaoBegin = GLsizei (length (vaoHandles st));
          vaoCount = GLsizei (length (primitives msh));
          ranges = (vaoRanges st)[i := (vaoBegin, vaoCount)];
          resized = vaoHandles st @ replicate (length (primitives msh)) 0
      in
      and_then (elem_at resized vaoBegin) (\<lambda>first.
        (let (vaos, fresh') = glGen vaoCount resized (nat vaoBegin) (vaoFresh st) in
         and_then (setupPrimitives m bufferObjects vaos vaoBegin 0 (primitives msh)) (\<lambda>cs.
           Inr \<lparr>vaoHandles = vaos, vaoRanges = ranges, vaoFresh = fresh',
                vaoCalls = vaoCalls st @ [glGenVertexArrays vaoCount] @ cs\<rparr>))))"

fun setupMeshes ::
  "Model \<Rightarrow> nat list \<Rightarrow> nat \<Rightarrow> Mesh list \<Rightarrow> VaoState \<Rightarrow> error + VaoState" where
  "setupMeshes m bufferObjects i [] st = Inr st"
| "setupMeshes m bufferObjects i (msh # rest) st =
     and_then (setupMesh m bufferObjects i msh st)
       (setupMeshes m bufferObjects (Suc i) rest)"

text \<open>\<^verbatim>\<open>v.resize(n)\<close> with value-initialised new elements.\<close>

definition resize :: "'a list \<Rightarrow> nat \<Rightarrow> 'a \<Rightarrow> 'a list" where
  "resize xs n x = take n xs @ replicate (n - length xs) x"

text \<open>The caller's range table is passed by reference and resized first.\<close>

definition createVertexArrayObjects ::
  "Model \<Rightarrow> nat list \<Rightarrow> (int \<times> int) list \<Rightarrow> nat \<Rightarrow> error + VaoState" where
  "createVertexArrayObjects m bufferObjects meshToVA0 fresh =
     setupMeshes m bufferObjects 0 (meshes m)
       \<lparr>vaoHandles = [], vaoRanges = resize meshToVA0 (length (meshes m)) (0, 0),
        vaoFresh = fresh, vaoCalls = []\<rparr>"

definition GL_LINEAR :: int where "GL_LINEAR = 9729"
definition GL_REPEAT :: int where "GL_REPEAT = 10497"
definition GL_NEAREST_MIPMAP_NEAREST :: int where "GL_NEAREST_MIPMAP_NEAREST = 9984"
definition GL_LINEAR_MIPMAP_NEAREST :: int where "GL_LINEAR_MIPMAP_NEAREST = 9985"
definition GL_NEAREST_MIPMAP_LINEAR :: int where "GL_NEAREST_MIPMAP_LINEAR = 9986"
definition GL_LINEAR_MIPMAP_LINEAR :: int where "GL_LINEAR_MIPMAP_LINEAR = 9987"
definition GL_TEXTURE_MAG_FILTER :: int where "GL_TEXTURE_MAG_FILTER = 10240"
definition GL_TEXTURE_MIN_FILTER :: int where "GL_TEXTURE_MIN_FILTER = 10241"
definition GL_TEXTURE_WRAP_S :: int where "GL_TEXTURE_WRAP_S = 10242"
definition GL_TEXTURE_WRAP_T :: int where "GL_TEXTURE_WRAP_T = 10243"
definition GL_TEXTURE_WRAP_R :: int where "GL_TEXTURE_WRAP_R = 32882"

definition defaultSampler :: Sampler where
  "defaultSampler =
     \<lparr>minFilter = GL_LINEAR, magFilter = GL_LINEAR,
      wrapS = GL_REPEAT, wrapT = GL_REPEAT, wrapR = GL_REPEAT\<rparr>"

text \<open>One iteration of the loop over the textures, for texture \<open>i\<close>.\<close>

definition uploadTexture :: "Model \<Rightarrow> nat list \<Rightarrow> nat \<Rightarrow> error + gl_call list" where
  "uploadTexture m texObjs i =
     (let texture = textures m ! i in
      if source texture \<ge> 0 then
        and_then (elem_at (images m) (source texture)) (\<lambda>img.
        and_then (if sampler texture \<ge> 0 then elem_at (samplers m) (sampler texture)
                  else Inr defaultSampler) (\<lambda>smp.
          Inr ([glBindTexture (texObjs ! i),
                glTexImage2D (width img) (height img) (pixel_type img) (pixels img),
                glTexParameteri GL_TEXTURE_MIN_FILTER
                  (if minFilter smp \<noteq> - 1 then minFilter smp else GL_LINEAR),
                glTexParameteri GL_TEXTURE_MAG_FILTER
                  (if magFilter smp \<noteq> - 1 then magFilter smp else GL_LINEAR),
                glTexParameteri GL_TEXTURE_WRAP_S (wrapS smp),
                glTexParameteri GL_TEXTURE_WRAP_T (wrapT smp),
                glTexParameteri GL_TEXTURE_WRAP_R (wrapR smp)]
               @ (if minFilter smp = GL_NEAREST_MIPMAP_NEAREST \<or>
                     minFilter smp = GL_NEAREST_MIPMAP_LINEAR \<or>
                     minFilter smp = GL_LINEAR_MIPMAP_NEAREST \<or>
                     minFilter smp = GL_LINEAR_MIPMAP_LINEAR
                  then [glGenerateMipmap] else []))))
      else Inl AssertionFailed)"

fun uploadTextures :: "Model \<Rightarrow> nat list \<Rightarrow> nat list \<Rightarrow> error + gl_call list" where
  "uploadTextures m texObjs [] = Inr []"
| "uploadTextures m texObjs (i # rest) =
     and_then (uploadTexture m texObjs i) (\<lambda>c.
     and_then (uploadTextures m texObjs rest) (\<lambda>cs. Inr (c @ cs)))"

text \<open>
  \<^verbatim>\<open>&textureObjects[0]\<close> is an element access, out of range when there is no
  texture.
\<close>

definition createTextureObjects :: "Model \<Rightarrow> nat \<Rightarrow> error + (nat list \<times> gl_call list \<times> nat)" where
  "createTextureObjects m fresh =
     (let n = length (textures m) in
      and_then (elem_at (replicate n (0::nat)) 0) (\<lambda>first.
        (let (texObjs, fresh') = glGen (GLsizei n) (replicate n 0) 0 fresh in
         and_then (uploadTextures m texObjs [0 ..< n]) (\<lambda>cs.
           Inr (texObjs, [glGenTextures (GLsizei n)] @ cs @ [glBindTexture 0],
                fresh')))))"

text \<open>The number of primitives of a list of meshes.\<close>

definition primitiveCount :: "Mesh list \<Rightarrow> nat" where
  "primitiveCount ms = sum_list (map (\<lambda>x. length (primitives x)) ms)"

text \<open>The image and sampler references of a texture record are inside the document's
  tables (an absent sampler is negative).\<close>

definition texture_in_range :: "Model \<Rightarrow> Texture \<Rightarrow> bool" where
  "texture_in_range m t =
     (0 \<le> source t \<and> nat (source t) < length (images m) \<and>
      (sampler t < 0 \<or> nat (sampler t) < length (samplers m)))"

section \<open>The node hierarchy as a forest\<close>

text \<open>
  The document addresses nodes by index. \<open>unfolds ns t\<close> says that following child
  indices from the root index of \<open>t\<close> in the node table \<open>ns\<close> spells out exactly the
  finite tree \<open>t\<close>; such a tree exists for a node when no cycle is reachable from it.
\<close>

datatype ntree = NTree int "ntree list"

fun tree_root :: "ntree \<Rightarrow> int" where
  "tree_root (NTree i ts) = i"

fun tree_height :: "ntree \<Rightarrow> nat" where
  "tree_height (NTree i ts) = Suc (foldr max (map tree_height ts) 0)"

fun unfolds :: "Node list \<Rightarrow> ntree \<Rightarrow> bool" where
  "unfolds ns (NTree i ts) =
     (0 \<le> i \<and> nat i < length ns \<and> children (ns ! nat i) = map tree_root ts \<and>
      (\<forall>t \<in> set ts. unfolds ns t))"

text \<open>
  The spec's account of the traversal, in its words: every node has a world transform,
  \<open>parent * local\<close>, and just \<open>local\<close> for a root; the nodes are met in depth-first
  pre-order, children in child-list order under their parent's world transform. The
  result lists each node with its world transform, in the order of the visits.
\<close>

fun spec_worldTransforms :: "Node list \<Rightarrow> mat4 option \<Rightarrow> ntree \<Rightarrow> (int \<times> mat4) list" where
  "spec_worldTransforms ns parent (NTree i ts) =
     (let localT = localTransform (ns ! nat i);
          world = (case parent of None \<Rightarrow> localT | Some P \<Rightarrow> mat4_mul P localT)
      in (i, world) # concat (map (spec_worldTransforms ns (Some world)) ts))"

text \<open>Call sequences one after the other; the first undefined one ends the run.\<close>

fun in_sequence :: "(error + gl_call list) list \<Rightarrow> error + gl_call list" where
  "in_sequence [] = Inr []"
| "in_sequence (r # rs) =
     and_then r (\<lambda>c. and_then (in_sequence rs) (\<lambda>cs. Inr (c @ cs)))"

text \<open>The draws of one node's own mesh under a given world transform.\<close>

definition drawAt :: "Env \<Rightarrow> int \<times> mat4 \<Rightarrow> error + gl_call list" where
  "drawAt env v = drawMesh env (nodes (model env) ! nat (fst v)) (snd v)"

section \<open>A concrete scene\<close>

text \<open>
  A document with one material that sets only its base colour factor, one texture, two
  meshes (an indexed and a non-indexed primitive, then one non-indexed primitive) and a
  root node with one child that carries the first mesh. The environment is the one
  \<^verbatim>\<open>run\<close> would build for it: a program that declares every uniform, the white
  texture 7, the draw handles 2, 3, 4. All matrices are uniform scalings, on which
  \<open>scaling_inverse\<close> is the inverse. The light comes from the camera, so
  \<^verbatim>\<open>glm::normalize\<close> is not called.
\<close>

definition scaling_inverse :: "mat4 \<Rightarrow> mat4" where
  "scaling_inverse m = mat4_diag (1 / fst (fst m))"

definition example_locs :: Locations where
  "example_locs =
     \<lparr>modelViewProjMatrixLocation = 0, modelViewMatrixLocation = 1, normalMatrixLocation = 2,
      uLightDirectionLocation = 3, uLightIntensity = 4, uBaseColorTexture = 5,
      uBaseColorFactor = 6, uMetallicRoughness = 7, uMetallicFactor = 8,
      uRoughnessFactor = 9, uEmissiveTexture = 10, uEmissiveFactor = 11,
      uOcclusionTexture = 12, uOcclusionStrength = 13, uApplyOcclusion = 14\<rparr>"

definition example_material :: Material where
  "example_material =
     \<lparr>pbrMetallicRoughness =
        \<lparr>baseColorFactor = (0.2, 0.3, 0.4, 1), baseColorTexture = - 1,
         metallicFactor = 1, roughnessFactor = 1, metallicRoughnessTexture = - 1\<rparr>,
      emissiveFactor = (0, 0, 0), emissiveTexture = - 1,
      occlusionTexture = - 1, occlusionStrength = 1\<rparr>"

definition example_model :: Model where
  "example_model =
     \<lparr>accessors =
        [\<lparr>bufferView = 0, accByteOffset = 0, componentType = 5126, count = 3, accType = 3\<rparr>,
         \<lparr>bufferView = 1, accByteOffset = 0, componentType = 5123, count = 3, accType = 65\<rparr>],
      bufferViews =
        [\<lparr>buffer = 0, byteOffset = 0, byteStride = 12, target = 34962\<rparr>,
         \<lparr>buffer = 0, byteOffset = 36, byteStride = 0, target = 34963\<rparr>],
      buffers = [replicate 42 0],
      images = [\<lparr>width = 1, height = 1, pixel_type = 5121, pixels = [255, 255, 255, 255]\<rparr>],
      samplers = [],
      textures = [\<lparr>source = 0, sampler = - 1\<rparr>],
      materials = [example_material],
      meshes =
        [\<lparr>primitives =
            [\<lparr>attributes = [(''POSITION'', 0)], indices = 1, material = 0, mode = 4\<rparr>,
             \<lparr>attributes = [(''POSITION'', 0)], indices = - 1, material = - 1, mode = 4\<rparr>]\<rparr>,
         \<lparr>primitives =
            [\<lparr>attributes = [(''POSITION'', 0)], indices = - 1, material = - 1, mode = 4\<rparr>]\<rparr>],
      nodes =
        [\<lparr>mesh = - 1, children = [1], localTransform = mat4_diag 2\<rparr>,
         \<lparr>mesh = 0, children = [], localTransform = mat4_diag 3\<rparr>],
      scenes = [\<lparr>sceneNodes = [0]\<rparr>],
      defaultScene = 0\<rparr>"

definition example_env :: Env where
  "example_env =
     \<lparr>model = example_model, locs = example_locs, whiteTexture = 7,
      textureObjects = [8], vertexArrayObjects = [2, 3, 4], meshToVA = [(0, 2), (2, 1)],
      viewMatrix = mat4_diag 2, projMatrix = mat4_identity,
      glm_inverse = scaling_inverse, glm_normalize = (\<lambda>v. v),
      lightDirection = (1, 1, 1), lightIntensity = (1, 1, 1),
      lightFromCamera = True, applyOcclusion = True,
      windowWidth = 1280, windowHeight = 720\<rparr>"

definition example_tree :: ntree where
  "example_tree = NTree 0 [NTree 1 []]"

text \<open>
  The same scene where the mesh of the child node has one non-indexed primitive whose
  two attributes refer to accessors of different counts (5 normals, 3 positions), which a
  loader should not produce.
\<close>

definition mismatched_env :: Env where
  "mismatched_env =
     example_env\<lparr>model := example_model
       \<lparr>accessors :=
          [\<lparr>bufferView = 0, accByteOffset = 0, componentType = 5126, count = 3, accType = 3\<rparr>,
           \<lparr>bufferView = 0, accByteOffset = 0, componentType = 5126, count = 5, accType = 3\<rparr>],
        meshes :=
          [\<lparr>primitives =
              [\<lparr>attributes = [(''NORMAL'', 1), (''POSITION'', 0)], indices = - 1,
                material = - 1, mode = 4\<rparr>]\<rparr>]\<rparr>\<rparr>"

text \<open>A device on which nothing has been bound or written.\<close>

definition initial_device :: Device where
  "initial_device =
     \<lparr>uniform = (\<lambda>loc. None), activeTexture = 0, boundTexture = (\<lambda>u. 0),
      boundVertexArray = 0, arrayBuffer = 0, bufferStore = (\<lambda>b. None)\<rparr>"

text \<open>The same scene with a material whose occlusion texture record has no image.\<close>

definition sourceless_env :: Env where
  "sourceless_env =
     example_env\<lparr>model := example_model
       \<lparr>textures := [\<lparr>source = - 1, sampler = - 1\<rparr>],
        materials := [example_material\<lparr>occlusionTexture := 0\<rparr>]\<rparr>\<rparr>"

text \<open>The same scene without a default scene.\<close>

definition sceneless_env :: Env where
  "sceneless_env = example_env\<lparr>model := example_model\<lparr>defaultScene := - 1\<rparr>\<rparr>"

text \<open>The same document with a texture that refers to an image the document does not
  have.\<close>

definition imageless_model :: Model where
  "imageless_model = example_model\<lparr>images := []\<rparr>"

section \<open>Basic facts\<close>

lemma and_then_Inr [simp]: "and_then (Inr x) f = f x"
  by (simp add: and_then_def)

lemma and_then_Inl [simp]: "and_then (Inl e) f = Inl e"
  by (simp add: and_then_def)

lemma and_then_eq_Inr: "and_then r f = Inr y \<longleftrightarrow> (\<exists>x. r = Inr x \<and> f x = Inr y)"
  by (cases r) simp_all

lemma elem_at_eq_Inr:
  "elem_at xs i = Inr x \<longleftrightarrow> 0 \<le> i \<and> nat i < length xs \<and> xs ! nat i = x"
  by (auto simp: elem_at_def)

lemma elem_at_in_range: "0 \<le> i \<Longrightarrow> nat i < length xs \<Longrightarrow> elem_at xs i = Inr (xs ! nat i)"
  by (simp add: elem_at_def)

lemma GLsizei_eq: "n < 2 ^ 31 \<Longrightarrow> GLsizei n = int n"
  by (simp add: GLsizei_def signed_of_nat signed_take_bit_int_eq_self)

lemma GLsizei_le: "GLsizei n \<le> int n"
proof (cases "n < 2 ^ 31")
  case True
  then show ?thesis by (simp add: GLsizei_eq)
next
  case False
  have "sint (word_of_nat n :: 32 word) < 2 ^ (LENGTH(32) - 1)"
    by (rule sint_lt)
  with False show ?thesis by (simp add: GLsizei_def)
qed

lemma run_calls_append: "run_calls (xs @ ys) d = run_calls ys (run_calls xs d)"
  by (simp add: run_calls_def)

lemma issued_draws_Nil [simp]: "issued_draws [] = []"
  by (simp add: issued_draws_def)

lemma issued_draws_Cons [simp]:
  "issued_draws (c # cs) = (if is_draw c then c # issued_draws cs else issued_draws cs)"
  by (simp add: issued_draws_def)

lemma issued_draws_append [simp]: "issued_draws (xs @ ys) = issued_draws xs @ issued_draws ys"
  by (simp add: issued_draws_def)

lemma mat4_mul_identity_left: "mat4_mul mat4_identity m = m"
  by (cases m rule: prod_cases4; cases "fst m" rule: prod_cases4)
    (auto simp: mat4_mul_def mat4_identity_def mat4_mul_vec_def vec4_add_def vec4_scale_def
      split: prod.splits)

lemmas example_defs = example_env_def example_model_def example_locs_def example_material_def
  example_tree_def initial_device_def scaling_inverse_def

lemmas mat4_defs = mat4_mul_def mat4_mul_vec_def vec4_add_def vec4_scale_def mat4_diag_def
  mat4_identity_def mat4_transpose_def

lemmas material_defs = bindMaterial_def bindNoMaterial_def bindPresentMaterial_def
  baseColorFactorCalls_def baseColorTextureCalls_def metallicRoughnessFactorCalls_def
  metallicRoughnessTextureCalls_def emissiveFactorCalls_def emissiveTextureCalls_def
  occlusionStrengthCalls_def occlusionTextureCalls_def lookupTextureObject_def

lemmas device_defs = material_bindings_def run_calls_def set_uniform_def

section \<open>Material binding\<close>

lemma lookupTextureObject_absent:
  "idx < 0 \<Longrightarrow> lookupTextureObject env fallback idx = Inr fallback"
  by (simp add: lookupTextureObject_def)

lemma lookupTextureObject_no_source:
  assumes "0 \<le> idx" and "lookupTextureObject env fallback idx = Inr t"
    and "source (textures (model env) ! nat idx) < 0"
  shows "t = fallback"
  using assms
  by (auto simp: lookupTextureObject_def and_then_eq_Inr elem_at_eq_Inr split: if_splits)

lemma bindNoMaterial_no_draw: "issued_draws (bindNoMaterial env) = []"
  by (simp add: bindNoMaterial_def Let_def)

lemma factor_calls_no_draw:
  "issued_draws (baseColorFactorCalls env pbr) = []"
  "issued_draws (metallicRoughnessFactorCalls env pbr) = []"
  "issued_draws (emissiveFactorCalls env mat) = []"
  "issued_draws (occlusionStrengthCalls env mat) = []"
  by (simp_all add: baseColorFactorCalls_def metallicRoughnessFactorCalls_def
      emissiveFactorCalls_def occlusionStrengthCalls_def case_prod_beta)

lemma texture_calls_no_draw:
  "baseColorTextureCalls env pbr = Inr c \<Longrightarrow> issued_draws c = []"
  "metallicRoughnessTextureCalls env pbr = Inr c \<Longrightarrow> issued_draws c = []"
  "emissiveTextureCalls env mat = Inr c \<Longrightarrow> issued_draws c = []"
  "occlusionTextureCalls env mat = Inr c \<Longrightarrow> issued_draws c = []"
  by (auto simp: baseColorTextureCalls_def metallicRoughnessTextureCalls_def
      emissiveTextureCalls_def occlusionTextureCalls_def and_then_eq_Inr split: if_splits)

lemma bindPresentMaterial_no_draw:
  assumes "bindPresentMaterial env mat = Inr cs"
  shows "issued_draws cs = []"
  using assms
  by (auto simp: bindPresentMaterial_def Let_def and_then_eq_Inr factor_calls_no_draw
      texture_calls_no_draw)

lemma bindMaterial_no_draw:
  assumes "bindMaterial env i = Inr cs"
  shows "issued_draws cs = []"
  using assms
  by (auto simp: bindMaterial_def and_then_eq_Inr bindNoMaterial_no_draw
      bindPresentMaterial_no_draw split: if_splits)

text \<open>
  \<^bold>\<open>C5.\<close> Without a material, \<^verbatim>\<open>bindMaterial\<close> leaves exactly the table of neutral
  defaults: base colour factor (1,1,1,1), the white texture on unit 0, metallic and
  roughness 1, emissive factor (0,0,0), texture 0 on unit 2, occlusion strength 0 and
  texture 0 on unit 3. This holds from every device state \<open>d\<close>, so nothing of an earlier
  call is left in these fields. The program is taken to declare the material uniforms:
  the source skips the write for a uniform whose location is negative.
\<close>

theorem resolve_no_material:
  assumes "material_uniforms_declared (locs env)"
  shows "resolve env (- 1) d = Inr (neutral_defaults (whiteTexture env))"
  using assms
  by (simp add: resolve_def bindMaterial_def bindNoMaterial_def material_uniforms_declared_def
      neutral_defaults_def device_defs Let_def)

theorem resolve_no_material_witness:
  "material_uniforms_declared (locs example_env) \<and>
   resolve example_env (- 1) initial_device = Inr (neutral_defaults 7) \<and>
   resolve example_env (- 1) (run_calls [glActiveTexture 3, glBindTexture 8] initial_device)
     = Inr (neutral_defaults 7)"
proof -
  have h: "material_uniforms_declared (locs example_env)"
    by (simp add: material_uniforms_declared_def example_defs)
  show ?thesis
    using h resolve_no_material [OF h, of initial_device]
      resolve_no_material [OF h, of "run_calls [glActiveTexture 3, glBindTexture 8] initial_device"]
    by (simp add: example_defs)
qed

text \<open>What the last block of either branch leaves on texture unit 3.\<close>

lemma occlusion_unit_after:
  "occlusionUnit (material_bindings l
     (run_calls [glActiveTexture 3, glBindTexture t, glUniform1i loc k] d)) = t"
  by (simp add: device_defs)

lemma bindNoMaterial_occlusion:
  assumes "0 \<le> uOcclusionTexture (locs env)"
  shows "occlusionUnit (material_bindings l (run_calls (bindNoMaterial env) d)) = 0"
proof -
  obtain pre where "bindNoMaterial env =
      pre @ [glActiveTexture 3, glBindTexture 0, glUniform1i (uOcclusionTexture (locs env)) 3]"
    using assms by (simp add: bindNoMaterial_def Let_def)
  then show ?thesis
    by (simp only: run_calls_append occlusion_unit_after)
qed

lemma bindPresentMaterial_occlusion:
  assumes "0 \<le> uOcclusionTexture (locs env)" and "bindPresentMaterial env mat = Inr cs"
  shows "\<exists>t. lookupTextureObject env (whiteTexture env) (occlusionTexture mat) = Inr t \<and>
             occlusionUnit (material_bindings l (run_calls cs d)) = t"
proof -
  from assms obtain pre t where
    "lookupTextureObject env (whiteTexture env) (occlusionTexture mat) = Inr t"
    and "cs = pre @ [glActiveTexture 3, glBindTexture t,
                    glUniform1i (uOcclusionTexture (locs env)) 3]"
    by (auto simp: bindPresentMaterial_def Let_def and_then_eq_Inr occlusionTextureCalls_def
        simp flip: append_assoc)
  then show ?thesis
    by (simp only: run_calls_append occlusion_unit_after) simp
qed

text \<open>
  \<^bold>\<open>C6\<close>, as the code has it. When the program declares the occlusion sampler, unit 3
  is bound to texture 0 only when there is no material. For a present material whose
  occlusion texture is absent (its reference is negative, or the referenced texture
  record has a negative image source) unit 3 is bound to the neutral white texture.
\<close>

theorem occlusion_slot_fallback:
  assumes "0 \<le> uOcclusionTexture (locs env)" and "resolve env i d = Inr b"
  shows "(i < 0 \<longrightarrow> occlusionUnit b = 0)
       \<and> (0 \<le> i \<longrightarrow> occlusionTexture (materials (model env) ! nat i) < 0 \<longrightarrow>
            occlusionUnit b = whiteTexture env)
       \<and> (0 \<le> i \<longrightarrow> 0 \<le> occlusionTexture (materials (model env) ! nat i) \<longrightarrow>
            source (textures (model env)
                      ! nat (occlusionTexture (materials (model env) ! nat i))) < 0 \<longrightarrow>
            occlusionUnit b = whiteTexture env)"
proof (cases "i < 0")
  case True
  with assms show ?thesis
    by (auto simp: resolve_def bindMaterial_def bindNoMaterial_occlusion)
next
  case False
  let ?mat = "materials (model env) ! nat i"
  from False assms(2) obtain cs where cs: "bindPresentMaterial env ?mat = Inr cs"
    and b: "b = material_bindings (locs env) (run_calls cs d)"
    by (auto simp: resolve_def bindMaterial_def and_then_eq_Inr elem_at_eq_Inr)
  from bindPresentMaterial_occlusion[OF assms(1) cs, of "locs env" d] b
  obtain t where t: "lookupTextureObject env (whiteTexture env) (occlusionTexture ?mat) = Inr t"
    and u: "occlusionUnit b = t" by auto
  from t u False show ?thesis
    using lookupTextureObject_no_source[of "occlusionTexture ?mat" env "whiteTexture env" t]
    by (auto simp: lookupTextureObject_absent)
qed

theorem occlusion_slot_fallback_witness:
  "0 \<le> uOcclusionTexture (locs example_env) \<and>
   resolve example_env (- 1) initial_device = Inr (neutral_defaults 7) \<and>
   occlusionUnit (neutral_defaults 7) = 0 \<and>
   occlusionTexture (materials (model example_env) ! nat 0) < 0 \<and>
   map_sum id occlusionUnit (resolve example_env 0 initial_device)
     = Inr (whiteTexture example_env) \<and>
   0 \<le> occlusionTexture (materials (model sourceless_env) ! nat 0) \<and>
   source (textures (model sourceless_env)
             ! nat (occlusionTexture (materials (model sourceless_env) ! nat 0))) < 0 \<and>
   map_sum id occlusionUnit (resolve sourceless_env 0 initial_device)
     = Inr (whiteTexture sourceless_env)"
proof -
  have l: "0 \<le> uOcclusionTexture (locs example_env)"
    "0 \<le> uOcclusionTexture (locs sourceless_env)"
    by (simp_all add: sourceless_env_def example_defs)
  have none: "resolve example_env (- 1) initial_device = Inr (neutral_defaults 7)"
    by (simp add: resolve_def material_defs example_defs device_defs neutral_defaults_def)
  obtain b1 where b1: "resolve example_env 0 initial_device = Inr b1"
    by (simp add: resolve_def material_defs example_defs elem_at_def device_defs)
  obtain b2 where b2: "resolve sourceless_env 0 initial_device = Inr b2"
    by (simp add: resolve_def material_defs sourceless_env_def example_defs elem_at_def
        device_defs)
  have m1: "occlusionTexture (materials (model example_env) ! nat 0) < 0"
    by (simp add: example_defs)
  have m2: "0 \<le> occlusionTexture (materials (model sourceless_env) ! nat 0)"
    "source (textures (model sourceless_env)
       ! nat (occlusionTexture (materials (model sourceless_env) ! nat 0))) < 0"
    by (simp_all add: sourceless_env_def example_defs)
  from occlusion_slot_fallback [OF l(1) none] occlusion_slot_fallback [OF l(1) b1]
    occlusion_slot_fallback [OF l(2) b2] l none b1 b2 m1 m2
  show ?thesis by simp
qed

theorem occlusion_slot_counterexample:
  "occlusionTexture (materials (model example_env) ! 0) < 0 \<and>
   map_sum id occlusionUnit (resolve example_env 0 initial_device) = Inr 7 \<and>
   whiteTexture example_env = 7"
  by (simp add: resolve_def material_defs example_defs elem_at_def device_defs)

text \<open>
  \<^bold>\<open>C2\<close>, as the code has it. For a material that sets only its base colour factor
  (all four texture references absent), with every material uniform declared,
  \<^verbatim>\<open>bindMaterial\<close> binds the white texture on unit 0, writes the material's own
  metallic, roughness, emissive and occlusion-strength values, binds texture 0 on unit 2
  and the white texture on unit 3. The base colour factor uniform is left out of this
  statement: the source writes the material's value and then writes (1,1,1,1) over it.
\<close>

theorem resolve_base_color_only:
  assumes "material_uniforms_declared (locs env)"
    and "0 \<le> i" and "nat i < length (materials (model env))"
    and "baseColorTexture (pbrMetallicRoughness (materials (model env) ! nat i)) < 0"
    and "metallicRoughnessTexture (pbrMetallicRoughness (materials (model env) ! nat i)) < 0"
    and "emissiveTexture (materials (model env) ! nat i) < 0"
    and "occlusionTexture (materials (model env) ! nat i) < 0"
  shows "\<exists>b. resolve env i d = Inr b
       \<and> baseColorUnit b = whiteTexture env
       \<and> baseColorSampler b = Some (U1i 0)
       \<and> metallicFactorUniform b =
           Some (U1f (metallicFactor (pbrMetallicRoughness (materials (model env) ! nat i))))
       \<and> roughnessFactorUniform b =
           Some (U1f (roughnessFactor (pbrMetallicRoughness (materials (model env) ! nat i))))
       \<and> emissiveFactorUniform b =
           Some (case emissiveFactor (materials (model env) ! nat i) of
                   (r, g, b) \<Rightarrow> U3f r g b)
       \<and> emissiveUnit b = 0
       \<and> emissiveSampler b = Some (U1i 2)
       \<and> occlusionStrengthUniform b =
           Some (U1f (occlusionStrength (materials (model env) ! nat i)))
       \<and> occlusionUnit b = whiteTexture env
       \<and> occlusionSampler b = Some (U1i 3)"
  using assms
  by (simp add: resolve_def bindMaterial_def elem_at_in_range bindPresentMaterial_def Let_def
      baseColorFactorCalls_def baseColorTextureCalls_def metallicRoughnessFactorCalls_def
      metallicRoughnessTextureCalls_def emissiveFactorCalls_def emissiveTextureCalls_def
      occlusionStrengthCalls_def occlusionTextureCalls_def lookupTextureObject_absent
      material_uniforms_declared_def device_defs case_prod_beta)

theorem resolve_base_color_only_witness:
  "material_uniforms_declared (locs example_env) \<and>
   baseColorFactor (pbrMetallicRoughness (materials (model example_env) ! nat 0))
     = (0.2, 0.3, 0.4, 1) \<and>
   map_sum id (\<lambda>b. (baseColorUnit b, metallicFactorUniform b, roughnessFactorUniform b,
                     emissiveFactorUniform b, emissiveUnit b, occlusionStrengthUniform b,
                     occlusionUnit b))
     (resolve example_env 0 initial_device)
   = Inr (7, Some (U1f 1), Some (U1f 1), Some (U3f 0 0 0), 0, Some (U1f 1), 7)"
proof -
  have h: "material_uniforms_declared (locs example_env)"
    "0 \<le> (0::int)" "nat 0 < length (materials (model example_env))"
    "baseColorTexture (pbrMetallicRoughness (materials (model example_env) ! nat 0)) < 0"
    "metallicRoughnessTexture (pbrMetallicRoughness (materials (model example_env) ! nat 0)) < 0"
    "emissiveTexture (materials (model example_env) ! nat 0) < 0"
    "occlusionTexture (materials (model example_env) ! nat 0) < 0"
    by (simp_all add: material_uniforms_declared_def example_defs)
  from resolve_base_color_only [OF h, of initial_device] h(1)
  show ?thesis by (auto simp: example_defs)
qed

theorem resolve_base_color_only_counterexample:
  "baseColorFactor (pbrMetallicRoughness (materials (model example_env) ! 0))
     = (0.2, 0.3, 0.4, 1) \<and>
   resolve example_env 0 initial_device =
     Inr \<lparr>baseColorFactorUniform = Some (U4f 1 1 1 1),
          baseColorUnit = 7,
          baseColorSampler = Some (U1i 0),
          metallicFactorUniform = Some (U1f 1),
          roughnessFactorUniform = Some (U1f 1),
          emissiveFactorUniform = Some (U3f 0 0 0),
          emissiveUnit = 0,
          emissiveSampler = Some (U1i 2),
          occlusionStrengthUniform = Some (U1f 1),
          occlusionUnit = 7,
          occlusionSampler = Some (U1i 3)\<rparr> \<and>
   resolve example_env 0 initial_device \<noteq>
     Inr ((neutral_defaults 7)\<lparr>baseColorFactorUniform := Some (U4f 0.2 0.3 0.4 1)\<rparr>)"
  by (simp add: resolve_def material_defs example_defs elem_at_def device_defs
      neutral_defaults_def)

section \<open>Traversal and draw submission\<close>

lemma drawPrimitive_draws:
  assumes "drawPrimitive env vaoRange prIdx p = Inr cs"
  shows "issued_draws cs = [primitiveDraw (model env) p]"
    and "indices p < 0 \<Longrightarrow> attributes p \<noteq> []"
  using assms
  by (auto simp: drawPrimitive_def primitiveDraw_def indexAccessor_def
      firstAttributeAccessor_def and_then_eq_Inr elem_at_eq_Inr bindMaterial_no_draw
      split: if_splits list.splits)

text \<open>The loop over the primitives issues the draw of each primitive, in order.\<close>

lemma drawPrimitives_draws:
  assumes "drawPrimitives env vaoRange prIdx ps = Inr cs"
  shows "issued_draws cs = map (primitiveDraw (model env)) ps
       \<and> (\<forall>p \<in> set ps. indices p < 0 \<longrightarrow> attributes p \<noteq> [])"
  using assms
proof (induction ps arbitrary: prIdx cs)
  case Nil
  then show ?case by simp
next
  case (Cons p ps)
  from Cons.prems obtain c cs' where c: "drawPrimitive env vaoRange prIdx p = Inr c"
    and cs': "drawPrimitives env vaoRange (Suc prIdx) ps = Inr cs'"
    and cs: "cs = c @ cs'"
    by (auto simp: and_then_eq_Inr)
  from drawPrimitive_draws [OF c] Cons.IH [OF cs'] cs show ?case by auto
qed

lemma drawMesh_draws:
  assumes "drawMesh env node modelMatrix = Inr cs" and "0 \<le> mesh node"
  shows "issued_draws cs =
           map (primitiveDraw (model env)) (primitives (meshes (model env) ! nat (mesh node)))
       \<and> (\<forall>p \<in> set (primitives (meshes (model env) ! nat (mesh node))).
             indices p < 0 \<longrightarrow> attributes p \<noteq> [])"
proof -
  from assms have "\<exists>pcs. drawPrimitives env (meshToVA env ! nat (mesh node)) 0
                     (primitives (meshes (model env) ! nat (mesh node))) = Inr pcs
                 \<and> issued_draws cs = issued_draws pcs"
    by (auto simp: drawMesh_def Let_def and_then_eq_Inr elem_at_eq_Inr)
  then obtain pcs where
    pcs: "drawPrimitives env (meshToVA env ! nat (mesh node)) 0
            (primitives (meshes (model env) ! nat (mesh node))) = Inr pcs"
    and cs: "issued_draws cs = issued_draws pcs"
    by blast
  from drawPrimitives_draws [OF pcs] cs show ?thesis by simp
qed

text \<open>
  \<^bold>\<open>C4.\<close> When the draws of a node's mesh return, they hold exactly one draw call
  for every primitive of the mesh, in the order of the primitives. For a primitive with an
  index buffer it is an indexed draw of the index accessor's count, with the index
  accessor's component type, at the sum of the accessor's and the buffer view's byte
  offsets. For a primitive without one the attribute map is not empty and the call is a
  non-indexed draw of the count of the accessor of the map's first entry, which is the
  vertex count \<open>n\<close> whenever all attribute accessors of the primitive have the count
  \<open>n\<close>. Counts are passed as \<^verbatim>\<open>GLsizei\<close>, so they are taken below \<open>2^31\<close>.
\<close>

theorem drawMesh_draw_calls:
  assumes "drawMesh env node modelMatrix = Inr cs" and "0 \<le> mesh node"
  shows "length (issued_draws cs) = length (primitives (meshes (model env) ! nat (mesh node)))
       \<and> (\<forall>k < length (primitives (meshes (model env) ! nat (mesh node))).
            (0 \<le> indices (primitives (meshes (model env) ! nat (mesh node)) ! k) \<longrightarrow>
             count (indexAccessor (model env)
                      (primitives (meshes (model env) ! nat (mesh node)) ! k)) < 2 ^ 31 \<longrightarrow>
             issued_draws cs ! k =
               glDrawElements (mode (primitives (meshes (model env) ! nat (mesh node)) ! k))
                 (int (count (indexAccessor (model env)
                        (primitives (meshes (model env) ! nat (mesh node)) ! k))))
                 (componentType (indexAccessor (model env)
                        (primitives (meshes (model env) ! nat (mesh node)) ! k)))
                 (size_t_add
                    (accByteOffset (indexAccessor (model env)
                        (primitives (meshes (model env) ! nat (mesh node)) ! k)))
                    (byteOffset (bufferViews (model env)
                        ! nat (bufferView (indexAccessor (model env)
                            (primitives (meshes (model env) ! nat (mesh node)) ! k)))))))
          \<and> (indices (primitives (meshes (model env) ! nat (mesh node)) ! k) < 0 \<longrightarrow>
             attributes (primitives (meshes (model env) ! nat (mesh node)) ! k) \<noteq> []
             \<and> (count (firstAttributeAccessor (model env)
                         (primitives (meshes (model env) ! nat (mesh node)) ! k)) < 2 ^ 31 \<longrightarrow>
                  issued_draws cs ! k =
                    glDrawArrays (mode (primitives (meshes (model env) ! nat (mesh node)) ! k)) 0
                      (int (count (firstAttributeAccessor (model env)
                         (primitives (meshes (model env) ! nat (mesh node)) ! k)))))
             \<and> (\<forall>n. (\<forall>a \<in> snd ` set (attributes
                               (primitives (meshes (model env) ! nat (mesh node)) ! k)).
                          count (accessors (model env) ! nat a) = n) \<longrightarrow>
                      n < 2 ^ 31 \<longrightarrow>
                      issued_draws cs ! k =
                        glDrawArrays
                          (mode (primitives (meshes (model env) ! nat (mesh node)) ! k)) 0
                          (int n))))"
proof -
  let ?ps = "primitives (meshes (model env) ! nat (mesh node))"
  from drawMesh_draws [OF assms]
  have draws: "issued_draws cs = map (primitiveDraw (model env)) ?ps"
    and attrs: "\<forall>p \<in> set ?ps. indices p < 0 \<longrightarrow> attributes p \<noteq> []"
    by simp_all
  have len: "length (issued_draws cs) = length ?ps"
    by (simp add: draws)
  have each: "(0 \<le> indices (?ps ! k) \<longrightarrow>
             count (indexAccessor (model env) (?ps ! k)) < 2 ^ 31 \<longrightarrow>
             issued_draws cs ! k =
               glDrawElements (mode (?ps ! k))
                 (int (count (indexAccessor (model env) (?ps ! k))))
                 (componentType (indexAccessor (model env) (?ps ! k)))
                 (size_t_add (accByteOffset (indexAccessor (model env) (?ps ! k)))
                    (byteOffset (bufferViews (model env)
                        ! nat (bufferView (indexAccessor (model env) (?ps ! k)))))))
          \<and> (indices (?ps ! k) < 0 \<longrightarrow>
             attributes (?ps ! k) \<noteq> []
             \<and> (count (firstAttributeAccessor (model env) (?ps ! k)) < 2 ^ 31 \<longrightarrow>
                  issued_draws cs ! k =
                    glDrawArrays (mode (?ps ! k)) 0
                      (int (count (firstAttributeAccessor (model env) (?ps ! k)))))
             \<and> (\<forall>n. (\<forall>a \<in> snd ` set (attributes (?ps ! k)).
                          count (accessors (model env) ! nat a) = n) \<longrightarrow>
                      n < 2 ^ 31 \<longrightarrow>
                      issued_draws cs ! k = glDrawArrays (mode (?ps ! k)) 0 (int n)))"
    if k: "k < length ?ps" for k
  proof -
    from k have d: "issued_draws cs ! k = primitiveDraw (model env) (?ps ! k)"
      by (simp add: draws)
    from k attrs have ne: "indices (?ps ! k) < 0 \<longrightarrow> attributes (?ps ! k) \<noteq> []"
      by simp
    have indexed: "issued_draws cs ! k =
               glDrawElements (mode (?ps ! k))
                 (int (count (indexAccessor (model env) (?ps ! k))))
                 (componentType (indexAccessor (model env) (?ps ! k)))
                 (size_t_add (accByteOffset (indexAccessor (model env) (?ps ! k)))
                    (byteOffset (bufferViews (model env)
                        ! nat (bufferView (indexAccessor (model env) (?ps ! k))))))"
      if "0 \<le> indices (?ps ! k)" and "count (indexAccessor (model env) (?ps ! k)) < 2 ^ 31"
      using that by (simp add: d primitiveDraw_def GLsizei_eq)
    have first: "issued_draws cs ! k =
                    glDrawArrays (mode (?ps ! k)) 0
                      (int (count (firstAttributeAccessor (model env) (?ps ! k))))"
      if "indices (?ps ! k) < 0"
        and "count (firstAttributeAccessor (model env) (?ps ! k)) < 2 ^ 31"
      using that by (simp add: d primitiveDraw_def GLsizei_eq)
    have shared: "issued_draws cs ! k = glDrawArrays (mode (?ps ! k)) 0 (int n)"
      if neg: "indices (?ps ! k) < 0"
        and all: "\<forall>a \<in> snd ` set (attributes (?ps ! k)).
                    count (accessors (model env) ! nat a) = n"
        and n: "n < 2 ^ 31"
      for n
    proof -
      from neg ne have "attributes (?ps ! k) \<noteq> []" by simp
      with all have "count (firstAttributeAccessor (model env) (?ps ! k)) = n"
        by (cases "attributes (?ps ! k)") (auto simp: firstAttributeAccessor_def)
      with first [OF neg] n show ?thesis by simp
    qed
    from indexed ne first shared show ?thesis by blast
  qed
  from len each show ?thesis by blast
qed

theorem drawMesh_draw_calls_witness:
  "0 \<le> mesh (nodes example_model ! 1) \<and>
   primitives (meshes (model example_env) ! nat (mesh (nodes example_model ! 1)))
     = [\<lparr>attributes = [(''POSITION'', 0)], indices = 1, material = 0, mode = 4\<rparr>,
        \<lparr>attributes = [(''POSITION'', 0)], indices = - 1, material = - 1, mode = 4\<rparr>] \<and>
   map_sum id issued_draws (drawMesh example_env (nodes example_model ! 1) (mat4_diag 6))
     = Inr [glDrawElements 4 3 5123 36, glDrawArrays 4 0 3] \<and>
   map count (accessors (model mismatched_env)) = [3, 5] \<and>
   map_sum id issued_draws (drawMesh mismatched_env (nodes example_model ! 1) (mat4_diag 6))
     = Inr [glDrawArrays 4 0 5]"
proof -
  let ?node = "nodes example_model ! 1"
  have m: "0 \<le> mesh ?node"
    by (simp add: example_defs)
  have ps: "primitives (meshes (model example_env) ! nat (mesh ?node))
     = [\<lparr>attributes = [(''POSITION'', 0)], indices = 1, material = 0, mode = 4\<rparr>,
        \<lparr>attributes = [(''POSITION'', 0)], indices = - 1, material = - 1, mode = 4\<rparr>]"
    "primitives (meshes (model mismatched_env) ! nat (mesh ?node))
     = [\<lparr>attributes = [(''NORMAL'', 1), (''POSITION'', 0)], indices = - 1,
         material = - 1, mode = 4\<rparr>]"
    by (simp_all add: mismatched_env_def example_defs)
  have acc: "accessors (model example_env) = accessors example_model"
    "bufferViews (model example_env) = bufferViews example_model"
    "map count (accessors (model mismatched_env)) = [3, 5]"
    "accessors (model mismatched_env) ! 1
       = \<lparr>bufferView = 0, accByteOffset = 0, componentType = 5126, count = 5, accType = 3\<rparr>"
    by (simp_all add: mismatched_env_def example_defs)
  obtain cs where r: "drawMesh example_env ?node (mat4_diag 6) = Inr cs"
    by (cases "drawMesh example_env ?node (mat4_diag 6)")
      (simp_all add: drawMesh_def drawPrimitive_def material_defs example_defs elem_at_def
        Let_def)
  obtain cs' where r': "drawMesh mismatched_env ?node (mat4_diag 6) = Inr cs'"
    by (cases "drawMesh mismatched_env ?node (mat4_diag 6)")
      (simp_all add: drawMesh_def drawPrimitive_def material_defs mismatched_env_def
        example_defs elem_at_def Let_def)
  note T = drawMesh_draw_calls [OF r m, unfolded ps]
  have "length (issued_draws cs) = 2"
    using T by simp
  moreover have "issued_draws cs ! 0 = glDrawElements 4 3 5123 36"
    using T [THEN conjunct2, rule_format, of 0]
    by (simp add: indexAccessor_def size_t_add_def example_defs)
  moreover have "issued_draws cs ! 1 = glDrawArrays 4 0 3"
    using T [THEN conjunct2, rule_format, of 1]
    by (simp add: firstAttributeAccessor_def example_defs)
  ultimately have d: "issued_draws cs = [glDrawElements 4 3 5123 36, glDrawArrays 4 0 3]"
    by (intro nth_equalityI) (auto simp add: less_Suc_eq numeral_2_eq_2)
  note T' = drawMesh_draw_calls [OF r' m, unfolded ps]
  have "length (issued_draws cs') = 1"
    using T' by simp
  moreover have "issued_draws cs' ! 0 = glDrawArrays 4 0 5"
    using T' [THEN conjunct2, rule_format, of 0] acc(4)
    by (simp add: firstAttributeAccessor_def)
  ultimately have d': "issued_draws cs' = [glDrawArrays 4 0 5]"
    by (intro nth_equalityI) simp_all
  from m ps acc d d' r r' show ?thesis by simp
qed

text \<open>
  \<^bold>\<open>C1.\<close> The slot of the model-view uniform receives the world transform itself. In
  the concrete scene the child node has the world transform \<open>diag 6\<close> and the view matrix
  is \<open>diag 2\<close>: the first three calls of the node's draws write \<open>diag 6\<close> to location 1
  (the model-view matrix), \<open>diag 12\<close> to location 0 (the model-view-projection matrix) and
  the transposed inverse of \<open>diag 12\<close> to location 2 (the normal matrix), while
  \<open>viewMatrix * worldTransform\<close> is \<open>diag 12\<close>.
\<close>

theorem model_view_slot_receives_world_matrix:
  "map_sum id (take 3) (drawMesh example_env (nodes example_model ! 1) (mat4_diag 6))
     = Inr [glUniformMatrix4fv (modelViewMatrixLocation (locs example_env)) (mat4_diag 6),
            glUniformMatrix4fv (modelViewProjMatrixLocation (locs example_env)) (mat4_diag 12),
            glUniformMatrix4fv (normalMatrixLocation (locs example_env)) (mat4_diag (1 / 12))]
   \<and> mat4_mul (viewMatrix example_env) (mat4_diag 6) = mat4_diag 12
   \<and> mat4_diag 6 \<noteq> mat4_diag 12"
  by (simp add: drawMesh_def drawPrimitive_def material_defs example_defs elem_at_def Let_def
      mat4_defs GLsizei_eq size_t_add_def)

text \<open>The traversal against the spec's account of it.\<close>

lemma drawAt_pair: "drawAt env (i, W) = drawMesh env (nodes (model env) ! nat i) W"
  by (simp add: drawAt_def)

lemma in_sequence_append:
  "in_sequence (xs @ ys) =
     and_then (in_sequence xs) (\<lambda>a. and_then (in_sequence ys) (\<lambda>b. Inr (a @ b)))"
proof (induction xs)
  case Nil
  show ?case by (cases "in_sequence ys") simp_all
next
  case (Cons x xs)
  show ?case
  proof (cases x)
    case (Inl e)
    then show ?thesis by simp
  next
    case (Inr c)
    then show ?thesis
      by (cases "in_sequence xs"; cases "in_sequence ys") (simp_all add: Cons.IH)
  qed
qed

lemma each_node_forest:
  assumes "\<forall>t \<in> set ts. visit (tree_root t) P = Some (in_sequence (map f (g t)))"
  shows "each_node visit (map tree_root ts) P = Some (in_sequence (map f (concat (map g ts))))"
  using assms
proof (induction ts)
  case Nil
  then show ?case by simp
next
  case (Cons t ts)
  then have first: "visit (tree_root t) P = Some (in_sequence (map f (g t)))"
    and others: "each_node visit (map tree_root ts) P
                   = Some (in_sequence (map f (concat (map g ts))))"
    by simp_all
  show ?case
    by (cases "in_sequence (map f (g t))"; cases "in_sequence (map f (concat (map g ts)))")
      (simp_all add: first others in_sequence_append)
qed

lemma tree_height_child: "t \<in> set ts \<Longrightarrow> tree_height t \<le> foldr max (map tree_height ts) 0"
  by (induction ts) auto

lemma drawNode_tree:
  assumes "unfolds (nodes (model env)) t" and "tree_height t \<le> fuel"
  shows "drawNode fuel env (tree_root t) P =
           Some (in_sequence (map (drawAt env)
                   (spec_worldTransforms (nodes (model env)) (Some P) t)))"
  using assms
proof (induction t arbitrary: fuel P)
  case (NTree i ts)
  let ?ns = "nodes (model env)"
  let ?W = "mat4_mul P (localTransform (?ns ! nat i))"
  from NTree.prems(2) obtain f where fuel: "fuel = Suc f"
    and f: "foldr max (map tree_height ts) 0 \<le> f"
    by (cases fuel) simp_all
  from NTree.prems(1) have i: "0 \<le> i" "nat i < length ?ns"
    and ch: "children (?ns ! nat i) = map tree_root ts"
    and sub: "\<forall>t \<in> set ts. unfolds ?ns t"
    by simp_all
  have "\<forall>t \<in> set ts. drawNode f env (tree_root t) ?W =
          Some (in_sequence (map (drawAt env) (spec_worldTransforms ?ns (Some ?W) t)))"
  proof
    fix t assume t: "t \<in> set ts"
    with f have "tree_height t \<le> f" using tree_height_child by fastforce
    with t sub show "drawNode f env (tree_root t) ?W =
          Some (in_sequence (map (drawAt env) (spec_worldTransforms ?ns (Some ?W) t)))"
      by (intro NTree.IH) simp_all
  qed
  then have below: "each_node (drawNode f env) (map tree_root ts) ?W =
      Some (in_sequence (map (drawAt env)
              (concat (map (spec_worldTransforms ?ns (Some ?W)) ts))))"
    by (rule each_node_forest)
  show ?case
    by (cases "drawMesh env (?ns ! nat i) ?W";
        cases "in_sequence (map (drawAt env)
              (concat (map (spec_worldTransforms ?ns (Some ?W)) ts)))")
      (simp_all add: fuel elem_at_in_range i ch below getLocalToWorldMatrix_def drawAt_pair
        Let_def)
qed

lemma drawScene_forest:
  assumes "0 \<le> defaultScene (model env)"
    and "nat (defaultScene (model env)) < length (scenes (model env))"
    and "sceneNodes (scenes (model env) ! nat (defaultScene (model env))) = map tree_root ts"
    and "\<forall>t \<in> set ts. unfolds (nodes (model env)) t \<and> tree_height t \<le> fuel"
  shows "drawScene fuel env =
           Some (and_then
                   (in_sequence (map (drawAt env)
                      (concat (map (spec_worldTransforms (nodes (model env)) None) ts))))
                   (\<lambda>cs. Inr ([glViewport 0 0 (windowWidth env) (windowHeight env), glClear]
                              @ lightUniforms env @ cs)))"
proof -
  let ?ns = "nodes (model env)"
  have at_root: "spec_worldTransforms ?ns (Some mat4_identity) t
                   = spec_worldTransforms ?ns None t" for t
    by (cases t) (simp add: mat4_mul_identity_left)
  have "\<forall>t \<in> set ts. drawNode fuel env (tree_root t) mat4_identity =
          Some (in_sequence (map (drawAt env) (spec_worldTransforms ?ns None t)))"
    using assms(4) by (auto simp: drawNode_tree at_root)
  then have "each_node (drawNode fuel env) (map tree_root ts) mat4_identity =
      Some (in_sequence (map (drawAt env) (concat (map (spec_worldTransforms ?ns None) ts))))"
    by (rule each_node_forest)
  then show ?thesis
    using assms(1-3)
    by (cases "in_sequence (map (drawAt env) (concat (map (spec_worldTransforms ?ns None) ts)))")
      (simp_all add: drawScene_def elem_at_in_range)
qed

text \<open>
  \<^bold>\<open>C3.\<close> On a node graph that is a forest, and with a recursion bound of at least its
  height, the traversal returns, and what it issues is the draws of each node's own mesh
  under the world transform the spec gives that node, in the spec's order: a node visited
  with parent transform \<open>P\<close> draws under \<open>P * local\<close> and hands that product to its
  children in child-list order; the roots of the default scene draw under their local
  transform.
\<close>

theorem traversal_world_transforms:
  "(unfolds (nodes (model env)) t \<longrightarrow> tree_height t \<le> fuel \<longrightarrow>
      drawNode fuel env (tree_root t) P =
        Some (in_sequence (map (drawAt env)
                (spec_worldTransforms (nodes (model env)) (Some P) t))))
   \<and> (0 \<le> defaultScene (model env) \<longrightarrow>
      nat (defaultScene (model env)) < length (scenes (model env)) \<longrightarrow>
      sceneNodes (scenes (model env) ! nat (defaultScene (model env))) = map tree_root ts \<longrightarrow>
      (\<forall>t \<in> set ts. unfolds (nodes (model env)) t \<and> tree_height t \<le> fuel) \<longrightarrow>
      drawScene fuel env =
        Some (and_then
                (in_sequence (map (drawAt env)
                   (concat (map (spec_worldTransforms (nodes (model env)) None) ts))))
                (\<lambda>cs. Inr ([glViewport 0 0 (windowWidth env) (windowHeight env), glClear]
                           @ lightUniforms env @ cs))))"
  using drawNode_tree drawScene_forest by blast

theorem traversal_world_transforms_witness:
  "unfolds (nodes (model example_env)) example_tree \<and>
   tree_height example_tree \<le> 2 \<and>
   spec_worldTransforms (nodes (model example_env)) (Some (mat4_diag 5)) example_tree
     = [(0, mat4_diag 10), (1, mat4_diag 30)] \<and>
   spec_worldTransforms (nodes (model example_env)) None example_tree
     = [(0, mat4_diag 2), (1, mat4_diag 6)] \<and>
   drawNode 2 example_env 0 (mat4_diag 5) =
     Some (in_sequence (map (drawAt example_env) [(0, mat4_diag 10), (1, mat4_diag 30)])) \<and>
   drawScene 2 example_env =
     Some (and_then
             (in_sequence (map (drawAt example_env) [(0, mat4_diag 2), (1, mat4_diag 6)]))
             (\<lambda>cs. Inr ([glViewport 0 0 1280 720, glClear] @ lightUniforms example_env @ cs))) \<and>
   map_option (map_sum id issued_draws) (drawScene 2 example_env)
     = Some (Inr [glDrawElements 4 3 5123 36, glDrawArrays 4 0 3])"
proof -
  have u: "unfolds (nodes (model example_env)) example_tree"
    by (simp add: example_defs)
  have h: "tree_height example_tree \<le> 2"
    by (simp add: example_defs)
  have s: "0 \<le> defaultScene (model example_env)"
    "nat (defaultScene (model example_env)) < length (scenes (model example_env))"
    "sceneNodes (scenes (model example_env) ! nat (defaultScene (model example_env)))
       = map tree_root [example_tree]"
    "\<forall>t \<in> set [example_tree]. unfolds (nodes (model example_env)) t \<and> tree_height t \<le> 2"
    using u h by (simp_all add: example_defs)
  have w: "spec_worldTransforms (nodes (model example_env)) (Some (mat4_diag 5)) example_tree
     = [(0, mat4_diag 10), (1, mat4_diag 30)]"
    "spec_worldTransforms (nodes (model example_env)) None example_tree
     = [(0, mat4_diag 2), (1, mat4_diag 6)]"
    by (simp_all add: example_defs mat4_defs)
  have g: "GLsizei 3 = 3"
    by (simp add: GLsizei_eq)
  have o: "size_t_add 0 36 = 36"
    by (simp add: size_t_add_def)
  have n: "map_option (map_sum id issued_draws) (drawScene 2 example_env)
     = Some (Inr [glDrawElements 4 3 5123 36, glDrawArrays 4 0 3])"
    by (simp add: drawScene_def lightUniforms_def drawMesh_def drawPrimitive_def material_defs
        example_defs elem_at_def Let_def mat4_defs g getLocalToWorldMatrix_def
        o numeral_2_eq_2)
  from traversal_world_transforms [of example_env example_tree 2 "mat4_diag 5" "[example_tree]"]
    u h s w n
  show ?thesis by (simp add: example_env_def example_tree_def)
qed

lemma lightUniforms_no_draw: "issued_draws (lightUniforms env) = []"
  by (simp add: lightUniforms_def case_prod_beta)

text \<open>
  \<^bold>\<open>C10.\<close> When the document declares no default scene, a frame sets the viewport,
  clears, writes the per-frame light uniforms and returns. It issues no draw call, and it
  returns under every recursion bound, zero included: no node is visited.
\<close>

theorem drawScene_no_default_scene:
  assumes "defaultScene (model env) < 0"
  shows "drawScene fuel env =
           Some (Inr ([glViewport 0 0 (windowWidth env) (windowHeight env), glClear]
                      @ lightUniforms env))
       \<and> drawScene 0 env = drawScene fuel env
       \<and> issued_draws ([glViewport 0 0 (windowWidth env) (windowHeight env), glClear]
                        @ lightUniforms env) = []"
  using assms by (simp add: drawScene_def lightUniforms_no_draw)

theorem drawScene_no_default_scene_witness:
  "defaultScene (model sceneless_env) < 0 \<and>
   drawScene 0 sceneless_env =
     Some (Inr [glViewport 0 0 1280 720, glClear, glUniform3f 3 0 0 1, glUniform3f 4 1 1 1,
                glUniform1i 14 1]) \<and>
   issued_draws [glViewport 0 0 1280 720, glClear, glUniform3f 3 0 0 1, glUniform3f 4 1 1 1,
                 glUniform1i 14 1] = []"
proof -
  have h: "defaultScene (model sceneless_env) < 0"
    by (simp add: sceneless_env_def example_defs)
  from drawScene_no_default_scene [OF h, of 0] h
  show ?thesis by (simp add: lightUniforms_def sceneless_env_def example_defs)
qed

section \<open>Device resources\<close>

lemma length_glGen:
  assumes "int off + n \<le> int (length arr)"
  shows "length (fst (glGen n arr off fresh)) = length arr"
  using assms by (auto simp: glGen_def)

text \<open>The buffer table has one handle per buffer of the document.\<close>

lemma createBufferObjects_length:
  "length (fst (createBufferObjects m fresh)) = length (buffers m)"
  using length_glGen [of 0 "GLsizei (length (buffers m))" "replicate (length (buffers m)) 0" fresh]
    GLsizei_le [of "length (buffers m)"]
  by (simp add: createBufferObjects_def Let_def case_prod_beta)

lemma setupMesh_effect:
  assumes "setupMesh m bo i msh st = Inr st'"
  shows "length (vaoHandles st') = length (vaoHandles st) + length (primitives msh)"
    and "vaoRanges st' =
           (vaoRanges st)[i := (GLsizei (length (vaoHandles st)), GLsizei (length (primitives msh)))]"
proof -
  let ?b = "GLsizei (length (vaoHandles st))"
  let ?c = "GLsizei (length (primitives msh))"
  let ?r = "vaoHandles st @ replicate (length (primitives msh)) 0"
  from assms have b: "0 \<le> ?b"
    by (auto simp: setupMesh_def Let_def and_then_eq_Inr elem_at_eq_Inr)
  have "int (nat ?b) + ?c \<le> int (length ?r)"
    using b GLsizei_le [of "length (vaoHandles st)"] GLsizei_le [of "length (primitives msh)"]
    by simp
  then have len: "length (fst (glGen ?c ?r (nat ?b) (vaoFresh st))) = length ?r"
    by (rule length_glGen)
  from assms len show "length (vaoHandles st') = length (vaoHandles st) + length (primitives msh)"
    by (auto simp: setupMesh_def Let_def and_then_eq_Inr case_prod_beta)
  from assms show "vaoRanges st' = (vaoRanges st)[i := (?b, ?c)]"
    by (auto simp: setupMesh_def Let_def and_then_eq_Inr case_prod_beta)
qed

text \<open>The invariant of the loop over the meshes.\<close>

lemma setupMeshes_ranges:
  assumes "setupMeshes m bo i rest st = Inr st'"
    and "i + length rest = length (vaoRanges st)"
    and "length (vaoHandles st') < 2 ^ 31"
  shows "length (vaoHandles st') = length (vaoHandles st) + primitiveCount rest
       \<and> length (vaoRanges st') = length (vaoRanges st)
       \<and> (\<forall>k < i. vaoRanges st' ! k = vaoRanges st ! k)
       \<and> (\<forall>j < length rest. vaoRanges st' ! (i + j) =
             (int (length (vaoHandles st) + primitiveCount (take j rest)),
              int (length (primitives (rest ! j)))))"
  using assms
proof (induction rest arbitrary: i st)
  case Nil
  then show ?case by (simp add: primitiveCount_def)
next
  case (Cons msh rest)
  from Cons.prems(1) obtain st1 where
    st1: "setupMesh m bo i msh st = Inr st1" and
    rest: "setupMeshes m bo (Suc i) rest st1 = Inr st'"
    by (auto simp: and_then_eq_Inr)
  note s1 = setupMesh_effect [OF st1]
  have len1: "Suc i + length rest = length (vaoRanges st1)"
    using Cons.prems(2) s1(2) by simp
  note IH = Cons.IH [OF rest len1 Cons.prems(3)]
  have small: "length (vaoHandles st) < 2 ^ 31" "length (primitives msh) < 2 ^ 31"
    using IH s1(1) Cons.prems(3) by simp_all
  have r1: "vaoRanges st1 =
      (vaoRanges st)[i := (int (length (vaoHandles st)), int (length (primitives msh)))]"
    using s1(2) small by (simp add: GLsizei_eq)
  have i_lt: "i < length (vaoRanges st)" using Cons.prems(2) by simp
  show ?case
  proof (intro conjI allI impI)
    show "length (vaoHandles st') = length (vaoHandles st) + primitiveCount (msh # rest)"
      using IH s1(1) by (simp add: primitiveCount_def)
    show "length (vaoRanges st') = length (vaoRanges st)"
      using IH r1 by simp
  next
    fix k assume "k < i"
    then show "vaoRanges st' ! k = vaoRanges st ! k"
      using IH r1 by simp
  next
    fix j assume j: "j < length (msh # rest)"
    show "vaoRanges st' ! (i + j) =
             (int (length (vaoHandles st) + primitiveCount (take j (msh # rest))),
              int (length (primitives ((msh # rest) ! j))))"
    proof (cases j)
      case 0
      then show ?thesis using IH r1 i_lt by (simp add: primitiveCount_def)
    next
      case (Suc j')
      with j have "j' < length rest" by simp
      with IH have "vaoRanges st' ! (Suc i + j') =
             (int (length (vaoHandles st1) + primitiveCount (take j' rest)),
              int (length (primitives (rest ! j'))))" by simp
      then show ?thesis using Suc s1(1) by (simp add: primitiveCount_def)
    qed
  qed
qed

text \<open>Consecutive slices of the given lengths make up the list they are cut from.\<close>

lemma concat_slices:
  assumes "off + sum_list cs = length H"
  shows "concat (map (\<lambda>k. take (cs ! k) (drop (off + sum_list (take k cs)) H)) [0 ..< length cs])
         = drop off H"
  using assms
proof (induction cs arbitrary: off)
  case Nil
  then show ?case by simp
next
  case (Cons c cs)
  have "off + c + sum_list cs = length H" using Cons.prems by simp
  from Cons.IH [OF this]
  have IH: "concat (map (\<lambda>k. take (cs ! k) (drop (off + c + sum_list (take k cs)) H))
              [0 ..< length cs]) = drop (off + c) H" .
  have "[0 ..< length (c # cs)] = 0 # map Suc [0 ..< length cs]"
    by (simp add: upt_conv_Cons map_Suc_upt del: upt_Suc)
  then have "concat (map (\<lambda>k. take ((c # cs) ! k) (drop (off + sum_list (take k (c # cs))) H))
              [0 ..< length (c # cs)])
      = take c (drop off H) @ concat (map (\<lambda>k. take (cs ! k)
           (drop (off + c + sum_list (take k cs)) H)) [0 ..< length cs])"
    by (simp add: comp_def add.assoc)
  also have "\<dots> = take c (drop off H) @ drop c (drop off H)"
    using IH by (simp add: ac_simps)
  also have "\<dots> = drop off H" by (rule append_take_drop_id)
  finally show ?case .
qed

lemma sum_list_take_mono:
  fixes xs :: "nat list"
  assumes "j \<le> k"
  shows "sum_list (take j xs) \<le> sum_list (take k xs)"
proof -
  from assms obtain d where "k = j + d" by (auto simp: le_iff_add)
  then show ?thesis by (simp add: take_add)
qed

text \<open>
  \<^bold>\<open>C7.\<close> When draw-handle construction returns, the range table has one range per
  mesh; the range of mesh \<open>k\<close> begins at the number of primitives of the meshes before it
  and has that mesh's number of primitives; a range ends no later than any later range
  begins; and the ranges, cut from the flat handle array in mesh order, give back the whole
  array. Ranges are stored as \<^verbatim>\<open>GLsizei\<close>, so the array is taken shorter than
  \<open>2^31\<close>.
\<close>

theorem mesh_ranges_partition:
  assumes "createVertexArrayObjects m bufferObjs meshToVA0 fresh = Inr st"
    and "length (vaoHandles st) < 2 ^ 31"
  shows "length (vaoRanges st) = length (meshes m)
       \<and> length (vaoHandles st) = primitiveCount (meshes m)
       \<and> (\<forall>k < length (meshes m). vaoRanges st ! k =
             (int (primitiveCount (take k (meshes m))),
              int (length (primitives (meshes m ! k)))))
       \<and> (\<forall>j k. j < k \<and> k < length (meshes m) \<longrightarrow>
             fst (vaoRanges st ! j) + snd (vaoRanges st ! j) \<le> fst (vaoRanges st ! k))
       \<and> concat (map (\<lambda>r. take (nat (snd r)) (drop (nat (fst r)) (vaoHandles st)))
                   (vaoRanges st)) = vaoHandles st"
proof -
  let ?ms = "meshes m"
  let ?cs = "map (\<lambda>x. length (primitives x)) ?ms"
  let ?st0 = "\<lparr>vaoHandles = [], vaoRanges = resize meshToVA0 (length ?ms) (0, 0),
               vaoFresh = fresh, vaoCalls = []\<rparr>"
  have run: "setupMeshes m bufferObjs 0 ?ms ?st0 = Inr st"
    using assms(1) by (simp add: createVertexArrayObjects_def)
  have len0: "0 + length ?ms = length (vaoRanges ?st0)"
    by (simp add: resize_def)
  from setupMeshes_ranges [OF run len0 assms(2)]
  have H: "length (vaoHandles st) = primitiveCount ?ms"
    and R: "length (vaoRanges st) = length ?ms"
    and N: "\<forall>k < length ?ms. vaoRanges st ! k =
             (int (primitiveCount (take k ?ms)), int (length (primitives (?ms ! k))))"
    by (simp_all add: resize_def)
  have ranges: "vaoRanges st =
      map (\<lambda>k. (int (sum_list (take k ?cs)), int (?cs ! k))) [0 ..< length ?cs]"
    using R N by (intro nth_equalityI) (simp_all add: primitiveCount_def take_map)
  have "concat (map (\<lambda>r. take (nat (snd r)) (drop (nat (fst r)) (vaoHandles st))) (vaoRanges st))
      = concat (map (\<lambda>k. take (?cs ! k) (drop (0 + sum_list (take k ?cs)) (vaoHandles st)))
          [0 ..< length ?cs])"
    by (simp add: ranges comp_def)
  also have "\<dots> = drop 0 (vaoHandles st)"
    by (rule concat_slices) (simp add: H primitiveCount_def)
  finally have C: "concat (map (\<lambda>r. take (nat (snd r)) (drop (nat (fst r)) (vaoHandles st)))
      (vaoRanges st)) = vaoHandles st" by simp
  have D: "fst (vaoRanges st ! j) + snd (vaoRanges st ! j) \<le> fst (vaoRanges st ! k)"
    if "j < k \<and> k < length ?ms" for j k
  proof -
    from that have j: "j < length ?ms" and k: "k < length ?ms" and jk: "Suc j \<le> k" by simp_all
    have "sum_list (take j ?cs) + ?cs ! j = sum_list (take (Suc j) ?cs)"
      using j by (simp add: take_Suc_conv_app_nth)
    also have "\<dots> \<le> sum_list (take k ?cs)"
      using jk by (rule sum_list_take_mono)
    finally have "int (sum_list (take j ?cs)) + int (?cs ! j) \<le> int (sum_list (take k ?cs))"
      by linarith
    then show ?thesis using N j k by (simp add: primitiveCount_def take_map)
  qed
  from R H N C D show ?thesis by blast
qed

lemmas vao_defs = createVertexArrayObjects_def setupMesh_def setupPrimitive_def
  vertexAttribute_def texCoordAttribute_def indexBuffer_def glGen_def resize_def
  GL_ARRAY_BUFFER_def GL_ELEMENT_ARRAY_BUFFER_def VERTEX_ATTRIB_POSITION_IDX_def
  VERTEX_ATTRIB_NORMAL_IDX_def VERTEX_ATTRIB_TEXCOORD0_IDX_def

theorem mesh_ranges_partition_witness:
  "map_sum id (\<lambda>st. (vaoHandles st, vaoRanges st))
     (createVertexArrayObjects example_model [1] [] 2)
     = Inr ([2, 3, 4], [(0, 2), (2, 1)]) \<and>
   primitiveCount (meshes example_model) = 3 \<and>
   concat (map (\<lambda>r. take (nat (snd r)) (drop (nat (fst r)) [2, 3, 4::nat]))
             [(0, 2), (2, 1)]) = [2, 3, 4]"
proof -
  have u: "map ((+) 2) [0 ..< 2] @ [4] = [2, 3, 4::nat]"
    by (simp add: numeral_2_eq_2)
  have "map_sum id (\<lambda>st. (vaoHandles st, vaoRanges st))
               (createVertexArrayObjects example_model [1] [] 2)
             = Inr (map ((+) 2) [0 ..< 2] @ [4], [(0, 2), (2, 1)])"
    by (simp add: vao_defs example_defs elem_at_def Let_def GLsizei_eq)
  then have run: "map_sum id (\<lambda>st. (vaoHandles st, vaoRanges st))
               (createVertexArrayObjects example_model [1] [] 2)
             = Inr ([2, 3, 4], [(0, 2), (2, 1)])"
    by (simp only: u)
  then obtain st where st: "createVertexArrayObjects example_model [1] [] 2 = Inr st"
    and v: "vaoHandles st = [2, 3, 4]" "vaoRanges st = [(0, 2), (2, 1)]"
    by (cases "createVertexArrayObjects example_model [1] [] 2") auto
  then have small: "length (vaoHandles st) < 2 ^ 31" by simp
  from mesh_ranges_partition [OF st small] st v
  show ?thesis by (simp add: example_defs)
qed

text \<open>
  \<^bold>\<open>C8.\<close> Texture upload takes the address of \<^verbatim>\<open>textureObjects[0]\<close> before
  its loop. On a document without textures that is an element access on an empty vector:
  the upload is undefined there and yields no table. Buffer upload passes
  \<^verbatim>\<open>bufferObjects.data()\<close> and is defined on an empty table.
\<close>

theorem createTextureObjects_no_textures:
  "createTextureObjects (m\<lparr>textures := []\<rparr>) fresh = Inl UndefinedBehaviour"
  by (simp add: createTextureObjects_def elem_at_def)

text \<open>Where texture upload returns, the table has one handle per texture.\<close>

lemma createTextureObjects_length:
  assumes "createTextureObjects m fresh = Inr r"
  shows "length (fst r) = length (textures m)"
proof -
  have "length (fst (glGen (GLsizei (length (textures m)))
                       (replicate (length (textures m)) 0) 0 fresh)) = length (textures m)"
    using length_glGen [of 0 "GLsizei (length (textures m))"
        "replicate (length (textures m)) 0" fresh] GLsizei_le [of "length (textures m)"]
    by simp
  with assms show ?thesis
    by (auto simp: createTextureObjects_def Let_def and_then_eq_Inr case_prod_beta)
qed

lemma uploadTexture_in_range:
  assumes "texture_in_range m (textures m ! i)"
  shows "\<exists>c. uploadTexture m texObjs i = Inr c"
  using assms
  by (auto simp: uploadTexture_def texture_in_range_def Let_def elem_at_in_range)

lemma uploadTexture_negative:
  assumes "source (textures m ! i) < 0"
  shows "uploadTexture m texObjs i = Inl AssertionFailed"
  using assms by (simp add: uploadTexture_def Let_def)

lemma uploadTextures_in_range:
  assumes "\<forall>i \<in> set ixs. texture_in_range m (textures m ! i)"
  shows "\<exists>cs. uploadTextures m texObjs ixs = Inr cs"
  using assms
proof (induction ixs)
  case Nil
  then show ?case by simp
next
  case (Cons i ixs)
  then obtain c cs where "uploadTexture m texObjs i = Inr c"
    and "uploadTextures m texObjs ixs = Inr cs"
    using uploadTexture_in_range [of m i texObjs] by auto
  then show ?case by simp
qed

lemma uploadTextures_first_negative:
  assumes "\<forall>i \<in> set pre. texture_in_range m (textures m ! i)"
    and "source (textures m ! k) < 0"
  shows "uploadTextures m texObjs (pre @ k # post) = Inl AssertionFailed"
  using assms
proof (induction pre)
  case Nil
  then show ?case by (simp add: uploadTexture_negative)
next
  case (Cons i pre)
  then obtain c where "uploadTexture m texObjs i = Inr c"
    using uploadTexture_in_range [of m i texObjs] by auto
  with Cons show ?case by simp
qed

lemma uploadTextures_some_negative:
  assumes "k \<in> set ixs" and "source (textures m ! k) < 0"
  shows "\<exists>e. uploadTextures m texObjs ixs = Inl e"
  using assms
proof (induction ixs)
  case Nil
  then show ?case by simp
next
  case (Cons i ixs)
  show ?case
  proof (cases "uploadTexture m texObjs i")
    case (Inl e)
    then show ?thesis by simp
  next
    case (Inr c)
    with Cons.prems have "k \<noteq> i" by (auto simp: uploadTexture_negative)
    with Cons obtain e where "uploadTextures m texObjs ixs = Inl e" by auto
    with Inr show ?thesis by simp
  qed
qed

lemma createTextureObjects_unfold:
  assumes "textures m \<noteq> []"
  shows "createTextureObjects m fresh =
           and_then (uploadTextures m
                       (fst (glGen (GLsizei (length (textures m)))
                               (replicate (length (textures m)) 0) 0 fresh))
                       [0 ..< length (textures m)])
             (\<lambda>cs. Inr (fst (glGen (GLsizei (length (textures m)))
                                 (replicate (length (textures m)) 0) 0 fresh),
                         [glGenTextures (GLsizei (length (textures m)))] @ cs @ [glBindTexture 0],
                         snd (glGen (GLsizei (length (textures m)))
                                 (replicate (length (textures m)) 0) 0 fresh)))"
  using assms
  by (simp add: createTextureObjects_def Let_def elem_at_def case_prod_beta)

text \<open>
  \<^bold>\<open>C9\<close>, as the code has it. The assertion bounds the image index from below only.
  When a document has a texture and every texture's image and sampler references are
  inside the document's tables, the upload returns a table with one handle per texture.
  When the first texture that is not so has a negative image source, the upload stops at
  the failed assertion. A document with a negative image source anywhere is never
  uploaded: the run ends in the failed assertion or, before it, in an out-of-range lookup.
\<close>

theorem texture_upload_source_checks:
  "(textures m \<noteq> [] \<longrightarrow> (\<forall>t \<in> set (textures m). texture_in_range m t) \<longrightarrow>
      (\<exists>r. createTextureObjects m fresh = Inr r \<and> length (fst r) = length (textures m)))
   \<and> (k < length (textures m) \<longrightarrow> source (textures m ! k) < 0 \<longrightarrow>
        (\<forall>j < k. texture_in_range m (textures m ! j)) \<longrightarrow>
        createTextureObjects m fresh = Inl AssertionFailed)
   \<and> ((\<exists>t \<in> set (textures m). source t < 0) \<longrightarrow>
        (\<exists>e. createTextureObjects m fresh = Inl e))"
proof (intro conjI impI)
  let ?n = "length (textures m)"
  let ?objs = "fst (glGen (GLsizei ?n) (replicate ?n 0) 0 fresh)"
  {
    assume ne: "textures m \<noteq> []" and ok: "\<forall>t \<in> set (textures m). texture_in_range m t"
    then have "\<forall>i \<in> set [0 ..< ?n]. texture_in_range m (textures m ! i)" by simp
    then obtain cs where cs: "uploadTextures m ?objs [0 ..< ?n] = Inr cs"
      using uploadTextures_in_range by blast
    have "length ?objs = ?n"
      using length_glGen [of 0 "GLsizei ?n" "replicate ?n 0" fresh] GLsizei_le [of ?n] by simp
    then show "\<exists>r. createTextureObjects m fresh = Inr r \<and> length (fst r) = ?n"
      by (simp add: createTextureObjects_unfold [OF ne] cs)
  }
  {
    assume k: "k < ?n" and neg: "source (textures m ! k) < 0"
      and before: "\<forall>j < k. texture_in_range m (textures m ! j)"
    from k have ne: "textures m \<noteq> []" by auto
    from k have split: "[0 ..< ?n] = [0 ..< k] @ k # [Suc k ..< ?n]"
      by (metis le_add1 less_imp_add_positive upt_add_eq_append upt_conv_Cons zero_le)
    have "uploadTextures m ?objs ([0 ..< k] @ k # [Suc k ..< ?n]) = Inl AssertionFailed"
      using before neg by (intro uploadTextures_first_negative) simp_all
    then show "createTextureObjects m fresh = Inl AssertionFailed"
      by (simp add: createTextureObjects_unfold [OF ne] split)
  }
  {
    assume "\<exists>t \<in> set (textures m). source t < 0"
    then obtain k where k: "k < ?n" and neg: "source (textures m ! k) < 0"
      by (auto simp: in_set_conv_nth)
    from k have ne: "textures m \<noteq> []" by auto
    from k have "k \<in> set [0 ..< ?n]" by simp
    then obtain e where "uploadTextures m ?objs [0 ..< ?n] = Inl e"
      using neg uploadTextures_some_negative by blast
    then show "\<exists>e. createTextureObjects m fresh = Inl e"
      by (simp add: createTextureObjects_unfold [OF ne])
  }
qed

theorem texture_upload_source_checks_witness:
  "textures example_model \<noteq> [] \<and>
   list_all (texture_in_range example_model) (textures example_model) \<and>
   map_sum id fst (createTextureObjects example_model 8) = Inr [8] \<and>
   source (textures (model sourceless_env) ! 0) < 0 \<and>
   createTextureObjects (model sourceless_env) 8 = Inl AssertionFailed"
proof -
  have ne: "textures example_model \<noteq> []"
    and ok: "\<forall>t \<in> set (textures example_model). texture_in_range example_model t"
    by (simp_all add: example_defs texture_in_range_def)
  have k: "0 < length (textures (model sourceless_env))"
    and neg: "source (textures (model sourceless_env) ! 0) < 0"
    and before: "\<forall>j < 0. texture_in_range (model sourceless_env)
                   (textures (model sourceless_env) ! j)"
    by (simp_all add: sourceless_env_def example_defs)
  have g: "GLsizei 1 = 1" "GLsizei (Suc 0) = 1"
    using GLsizei_eq [of 1] by simp_all
  have up: "map_sum id fst (createTextureObjects example_model 8) = Inr [8]"
    by (simp add: createTextureObjects_def uploadTexture_def glGen_def defaultSampler_def
        example_defs elem_at_def Let_def g)
  from texture_upload_source_checks [of example_model 8 0]
    texture_upload_source_checks [of "model sourceless_env" 8 0] ne ok k neg before up
  show ?thesis by (simp add: list_all_iff)
qed

theorem texture_upload_source_counterexample:
  "list_all (\<lambda>t. 0 \<le> source t) (textures imageless_model) \<and>
   textures imageless_model \<noteq> [] \<and>
   createTextureObjects imageless_model 8 = Inl UndefinedBehaviour"
  by (simp add: createTextureObjects_def uploadTexture_def glGen_def imageless_model_def
      example_defs elem_at_def Let_def)

end
